theory Spec2Isabelle
  imports Complex_Main "HOL-Library.AList"
begin

section \<open>Python values, dictionaries and errors\<close>

text \<open>
  The agents of the repository exchange plain Python dictionaries whose values are JSON-like.
  A value is one constructor of \<open>pyval\<close>; a dictionary is an association list in insertion
  order (\<open>AList.update\<close> overwrites a present key in place and appends a new key at the end,
  as a Python \<open>dict\<close> does).

  Two idealisations, used throughout:
  \<^item> a Python \<open>float\<close> is a real number (no rounding error, no \<open>inf\<close>, no \<open>nan\<close>);
  \<^item> a Python \<open>str\<close> is a list of 8-bit characters; letters, digits and white space are the
    ASCII ones.
\<close>

datatype pyval =
    PNone
  | PBool bool
  | PInt int
  | PFloat real
  | PStr string
  | PList "pyval list"
  | PDict "(string \<times> pyval) list"

type_synonym pydict = "(string \<times> pyval) list"

text \<open>The exceptions that the modelled code can raise.\<close>

datatype error =
    TypeError
  | ValueError
  | AttributeError
  | RuntimeError string
  | OpenAIError string
  | DatabaseError string

text \<open>\<^verbatim>\<open>d.get(k)\<close> and \<^verbatim>\<open>d.get(k, default)\<close>.\<close>

definition dict_get :: "pydict \<Rightarrow> string \<Rightarrow> pyval" where
  "dict_get d k = (case map_of d k of Some v \<Rightarrow> v | None \<Rightarrow> PNone)"

definition dict_get_default :: "pydict \<Rightarrow> string \<Rightarrow> pyval \<Rightarrow> pyval" where
  "dict_get_default d k dflt = (case map_of d k of Some v \<Rightarrow> v | None \<Rightarrow> dflt)"

text \<open>Truthiness, as \<^verbatim>\<open>if v:\<close>, \<^verbatim>\<open>a and b\<close>, \<^verbatim>\<open>a or b\<close> and \<^verbatim>\<open>not v\<close> test it.\<close>

fun truthy :: "pyval \<Rightarrow> bool" where
  "truthy PNone = False"
| "truthy (PBool b) = b"
| "truthy (PInt i) = (i \<noteq> 0)"
| "truthy (PFloat x) = (x \<noteq> 0)"
| "truthy (PStr s) = (s \<noteq> [])"
| "truthy (PList xs) = (xs \<noteq> [])"
| "truthy (PDict d) = (d \<noteq> [])"

definition py_or :: "pyval \<Rightarrow> pyval \<Rightarrow> pyval" where
  "py_or a b = (if truthy a then a else b)"

text \<open>
  \<^verbatim>\<open>float(v)\<close>. Python's grammar of float literals in strings is not re-implemented: every
  function that may call \<^verbatim>\<open>float\<close> on a string takes the parser \<open>pf\<close> as an argument
  (\<open>None\<close> is the \<^verbatim>\<open>ValueError\<close>), and the theorems hold for every parser.
\<close>

type_synonym float_parser = "string \<Rightarrow> real option"

fun py_float :: "float_parser \<Rightarrow> pyval \<Rightarrow> error + real" where
  "py_float pf PNone = Inl TypeError"
| "py_float pf (PBool b) = Inr (if b then 1 else 0)"
| "py_float pf (PInt i) = Inr (of_int i)"
| "py_float pf (PFloat x) = Inr x"
| "py_float pf (PStr s) = (case pf s of None \<Rightarrow> Inl ValueError | Some x \<Rightarrow> Inr x)"
| "py_float pf (PList xs) = Inl TypeError"
| "py_float pf (PDict d) = Inl TypeError"

text \<open>What \<^verbatim>\<open>list.extend(v)\<close> iterates over: the items of a list, the one-character strings
  of a string, the keys of a dictionary; anything else is not iterable.\<close>

fun py_iter :: "pyval \<Rightarrow> error + pyval list" where
  "py_iter (PList xs) = Inr xs"
| "py_iter (PStr s) = Inr (map (\<lambda>c. PStr [c]) s)"
| "py_iter (PDict d) = Inr (map (\<lambda>kv. PStr (fst kv)) d)"
| "py_iter v = Inl TypeError"

text \<open>\<^verbatim>\<open>round(x, 3)\<close>: to the nearest multiple of 0.001, a tie to the even one.\<close>

definition round_half_even :: "real \<Rightarrow> int" where
  "round_half_even x =
     (let f = \<lfloor>x\<rfloor>; d = x - of_int f
      in if d < 1/2 then f else if 1/2 < d then f + 1 else if even f then f else f + 1)"

definition py_round3 :: "real \<Rightarrow> real" where
  "py_round3 x = of_int (round_half_even (x * 1000)) / 1000"

subsection \<open>Strings\<close>

definition upper_letters :: string where
  "upper_letters = ''ABCDEFGHIJKLMNOPQRSTUVWXYZ''"

definition lower_letters :: string where
  "lower_letters = ''abcdefghijklmnopqrstuvwxyz''"

definition lower_c :: "char \<Rightarrow> char" where
  "lower_c c = (case map_of (zip upper_letters lower_letters) c of Some d \<Rightarrow> d | None \<Rightarrow> c)"

definition upper_c :: "char \<Rightarrow> char" where
  "upper_c c = (case map_of (zip lower_letters upper_letters) c of Some d \<Rightarrow> d | None \<Rightarrow> c)"

definition str_lower :: "string \<Rightarrow> string" where
  "str_lower s = map lower_c s"

definition str_upper :: "string \<Rightarrow> string" where
  "str_upper s = map upper_c s"

definition startswith :: "string \<Rightarrow> string \<Rightarrow> bool" where
  "startswith s p = (take (length p) s = p)"

definition endswith :: "string \<Rightarrow> string \<Rightarrow> bool" where
  "endswith s p = (length p \<le> length s \<and> drop (length s - length p) s = p)"

section \<open>The scorer: \<^verbatim>\<open>src/agents/scorer.py\<close>\<close>

text \<open>
  \<^verbatim>\<open>compute_score\<close> keeps two locals, \<open>base\<close> and \<open>reasons\<close>, and runs three checks on them
  in a fixed order. Each check is one function on the pair; \<open>compute_score\<close> chains them.
\<close>

type_synonym score_state = "real \<times> pyval list"

text \<open>\<^verbatim>\<open>confidence = float(extraction.get("confidence", 0.5) or 0.5)\<close>\<close>

definition confidence_of :: "float_parser \<Rightarrow> pydict \<Rightarrow> error + real" where
  "confidence_of pf extraction =
     py_float pf (py_or (dict_get_default extraction ''confidence'' (PFloat 0.5)) (PFloat 0.5))"

text \<open>\<^verbatim>\<open>if verification.get("contradictions"): base += 0.35; reasons.extend(...)\<close>\<close>

definition contradictions_bump :: "pydict \<Rightarrow> score_state \<Rightarrow> error + score_state" where
  "contradictions_bump verification st =
     (if truthy (dict_get verification ''contradictions'')
      then (case py_iter (dict_get_default verification ''contradictions'' (PList [])) of
              Inl e \<Rightarrow> Inl e
            | Inr items \<Rightarrow> Inr (fst st + 0.35, snd st @ items))
      else Inr st)"

text \<open>\<^verbatim>\<open>if extraction.get("invoice_number") and not verification.get("invoice_exists"): ...\<close>\<close>

definition invoice_missing_bump :: "pydict \<Rightarrow> pydict \<Rightarrow> score_state \<Rightarrow> score_state" where
  "invoice_missing_bump extraction verification st =
     (if truthy (dict_get extraction ''invoice_number'')
         \<and> \<not> truthy (dict_get verification ''invoice_exists'')
      then (fst st + 0.30, snd st @ [PStr ''invoice_missing_in_sap''])
      else st)"

text \<open>\<^verbatim>\<open>if sender and (not sender.lower().endswith("@abcchem.com")): ...\<close>\<close>

definition sender_bump :: "string \<Rightarrow> score_state \<Rightarrow> score_state" where
  "sender_bump sender st =
     (if sender \<noteq> [] \<and> \<not> endswith (str_lower sender) ''@abcchem.com''
      then (fst st + 0.15, snd st @ [PStr ''non_standard_sender''])
      else st)"

text \<open>The threshold policy, applied to the clamped score before it is rounded.\<close>

definition action_of :: "real \<Rightarrow> string" where
  "action_of score =
     (if 0.75 \<le> score then ''HOLD_PAYMENT''
      else if 0.35 \<le> score then ''REQUEST_DOCS''
      else ''AUTO_APPROVE'')"

definition compute_score :: "float_parser \<Rightarrow> pydict \<Rightarrow> pydict \<Rightarrow> string \<Rightarrow> error + pydict" where
  "compute_score pf extraction verification sender =
     (case confidence_of pf extraction of
        Inl e \<Rightarrow> Inl e
      | Inr confidence \<Rightarrow>
          (case contradictions_bump verification (1 - confidence, []) of
             Inl e \<Rightarrow> Inl e
           | Inr st1 \<Rightarrow>
               (let st3 = sender_bump sender (invoice_missing_bump extraction verification st1);
                    score = max 0 (min 1 (fst st3))
                in Inr [(''suspicious_score'', PFloat (py_round3 score)),
                        (''action'', PStr (action_of score)),
                        (''reasons'', PList (snd st3))])))"

section \<open>The verifier: \<^verbatim>\<open>src/agents/verifier.py\<close>\<close>

text \<open>
  The record store is an external collaborator. An open connection answers the three queries
  that \<^verbatim>\<open>verify\<close> executes; a query may raise. \<^verbatim>\<open>_connect()\<close> returns \<^verbatim>\<open>None\<close> when the store
  cannot be reached: \<open>verify\<close> takes its result, a \<open>connection option\<close>.
\<close>

record invoice_row =
  invoice_id :: int
  amount :: "real option"
  sap_status :: pyval

record connection =
  select_invoice :: "pyval \<Rightarrow> error + invoice_row option"
  select_purchase_order :: "pyval \<Rightarrow> error + int option"
  select_goods_receipt :: "int \<Rightarrow> error + int list"

definition verify_defaults :: pydict where
  "verify_defaults =
     [(''invoice_exists'', PBool False), (''invoice_id'', PNone), (''invoice_amount'', PNone),
      (''po_exists'', PBool False), (''po_id'', PNone), (''grn_exists'', PBool False),
      (''grn_ids'', PList []), (''contradictions'', PList [])]"

definition contradictions_of :: "pydict \<Rightarrow> pyval list" where
  "contradictions_of out = (case dict_get out ''contradictions'' of PList xs \<Rightarrow> xs | _ \<Rightarrow> [])"

text \<open>\<^verbatim>\<open>out["contradictions"].append(tag)\<close>\<close>

definition append_contradiction :: "string \<Rightarrow> pydict \<Rightarrow> pydict" where
  "append_contradiction tag out =
     AList.update ''contradictions'' (PList (contradictions_of out @ [PStr tag])) out"

definition lookup_invoice :: "connection \<Rightarrow> pyval \<Rightarrow> pydict \<Rightarrow> error + pydict" where
  "lookup_invoice cur invoice out =
     (if truthy invoice
      then (case select_invoice cur invoice of
              Inl e \<Rightarrow> Inl e
            | Inr None \<Rightarrow> Inr out
            | Inr (Some r) \<Rightarrow>
                Inr (AList.update ''invoice_status'' (sap_status r)
                      (AList.update ''invoice_amount''
                          (case amount r of Some a \<Rightarrow> PFloat a | None \<Rightarrow> PNone)
                        (AList.update ''invoice_id'' (PInt (invoice_id r))
                          (AList.update ''invoice_exists'' (PBool True) out)))))
      else Inr out)"

definition lookup_po :: "connection \<Rightarrow> pyval \<Rightarrow> pydict \<Rightarrow> error + pydict" where
  "lookup_po cur po out =
     (if truthy po
      then (case select_purchase_order cur po of
              Inl e \<Rightarrow> Inl e
            | Inr None \<Rightarrow> Inr out
            | Inr (Some po_id) \<Rightarrow>
                (let out1 = AList.update ''po_id'' (PInt po_id)
                              (AList.update ''po_exists'' (PBool True) out)
                 in case select_goods_receipt cur po_id of
                      Inl e \<Rightarrow> Inl e
                    | Inr rows \<Rightarrow>
                        if rows \<noteq> []
                        then Inr (AList.update ''grn_ids'' (PList (map PInt rows))
                                   (AList.update ''grn_exists'' (PBool True) out1))
                        else Inr out1))
      else Inr out)"

text \<open>The two contradiction checks, in the order of the source; the \<^verbatim>\<open>try\<close> around the
  amount comparison swallows every exception.\<close>

definition check_not_received :: "pydict \<Rightarrow> pydict \<Rightarrow> pydict" where
  "check_not_received extraction out =
     (if dict_get extraction ''claim_type'' = PStr ''not_received''
         \<and> truthy (dict_get out ''grn_exists'')
      then append_contradiction ''not_received_but_grn_exists'' out
      else out)"

definition check_amount :: "float_parser \<Rightarrow> pydict \<Rightarrow> pydict \<Rightarrow> pydict" where
  "check_amount pf extraction out =
     (if truthy (dict_get extraction ''claimed_amount'') \<and> truthy (dict_get out ''invoice_amount'')
      then (case py_float pf (py_or (dict_get extraction ''claimed_amount'') (PInt 0)) of
              Inl e \<Rightarrow> out
            | Inr claimed \<Rightarrow>
                (case dict_get out ''invoice_amount'' of
                   PFloat a \<Rightarrow>
                     if 1 < \<bar>claimed - a\<bar> then append_contradiction ''amount_mismatch'' out
                     else out
                 | _ \<Rightarrow> out))
      else out)"

definition verify :: "float_parser \<Rightarrow> connection option \<Rightarrow> pydict \<Rightarrow> error + pydict" where
  "verify pf conn extraction =
     (let invoice = dict_get extraction ''invoice_number'';
          po = dict_get extraction ''po_number'';
          out = verify_defaults
      in case conn of
           None \<Rightarrow> Inr out
         | Some cur \<Rightarrow>
             (case lookup_invoice cur invoice out of
                Inl e \<Rightarrow> Inl e
              | Inr out1 \<Rightarrow>
                  (case lookup_po cur po out1 of
                     Inl e \<Rightarrow> Inl e
                   | Inr out2 \<Rightarrow>
                       Inr (check_amount pf extraction (check_not_received extraction out2)))))"

section \<open>Regular expressions\<close>

text \<open>
  The patterns of the two extractor modules are matched by hand-written matchers. A matcher
  is given the character before the current position (for \<^verbatim>\<open>\b\<close>) and the rest of the text,
  and returns the length of the match of the pattern at this position. All the patterns below
  are compiled with \<^verbatim>\<open>re.IGNORECASE\<close> except \<^verbatim>\<open>AMOUNT_RE\<close>.
\<close>

definition is_digit :: "char \<Rightarrow> bool" where
  "is_digit c = (c \<in> set ''0123456789'')"

definition is_word :: "char \<Rightarrow> bool" where
  "is_word c = (c \<in> set (upper_letters @ lower_letters @ ''0123456789_''))"

definition is_space :: "char \<Rightarrow> bool" where
  "is_space c =
     (c \<in> set [CHR 0x09, CHR 0x0A, CHR 0x0B, CHR 0x0C, CHR 0x0D,
                 CHR 0x1C, CHR 0x1D, CHR 0x1E, CHR 0x1F, CHR 0x20])"

text \<open>The class \<^verbatim>\<open>[-\s]\<close>.\<close>

definition is_sep :: "char \<Rightarrow> bool" where
  "is_sep c = (c = CHR ''-'' \<or> is_space c)"

text \<open>\<^verbatim>\<open>\b\<close> in front of a word character, and behind one.\<close>

definition boundary_before :: "char option \<Rightarrow> bool" where
  "boundary_before prev = (case prev of None \<Rightarrow> True | Some p \<Rightarrow> \<not> is_word p)"

definition boundary_after :: "string \<Rightarrow> bool" where
  "boundary_after rest = (case rest of [] \<Rightarrow> True | c # _ \<Rightarrow> \<not> is_word c)"

text \<open>
  \<^verbatim>\<open>\bTAG[-\s]?\d{lo,hi}\b\<close> for an upper-case \<open>tag\<close> (\<open>hi = None\<close> is \<^verbatim>\<open>\d{lo,}\<close>). The digits
  are followed by \<^verbatim>\<open>\b\<close>, so the greedy run has to be the whole run of digits: a shorter
  one is followed by a digit.
\<close>

definition match_tag_digits ::
  "string \<Rightarrow> nat \<Rightarrow> nat option \<Rightarrow> char option \<Rightarrow> string \<Rightarrow> nat option" where
  "match_tag_digits tag lo hi prev s =
     (if boundary_before prev \<and> length tag \<le> length s \<and> str_upper (take (length tag) s) = tag
      then (let r = drop (length tag) s;
                k = (case r of [] \<Rightarrow> 0 | c # _ \<Rightarrow> if is_sep c then 1 else 0);
                n = length (takeWhile is_digit (drop k r))
            in if lo \<le> n \<and> (case hi of None \<Rightarrow> True | Some h \<Rightarrow> n \<le> h)
                  \<and> boundary_after (drop (k + n) r)
               then Some (length tag + k + n)
               else None)
      else None)"

text \<open>\<^verbatim>\<open>\b45\d{5,6}\b\<close>\<close>

definition match_po45 :: "char option \<Rightarrow> string \<Rightarrow> nat option" where
  "match_po45 prev s =
     (if boundary_before prev \<and> take 2 s = ''45''
      then (let n = length (takeWhile is_digit (drop 2 s))
            in if 5 \<le> n \<and> n \<le> 6 \<and> boundary_after (drop (2 + n) s) then Some (2 + n) else None)
      else None)"

text \<open>\<^verbatim>\<open>pattern.search(text)\<close>: the match at the leftmost position that has one.\<close>

fun re_search :: "(char option \<Rightarrow> string \<Rightarrow> nat option) \<Rightarrow> char option \<Rightarrow> string \<Rightarrow> string option" where
  "re_search m prev [] = (case m prev [] of Some n \<Rightarrow> Some [] | None \<Rightarrow> None)"
| "re_search m prev (c # cs) =
     (case m prev (c # cs) of
        Some n \<Rightarrow> Some (take n (c # cs))
      | None \<Rightarrow> re_search m (Some c) cs)"


text \<open>\<^verbatim>\<open>s.replace(old, new)\<close> for a non-empty \<open>old\<close>, and \<^verbatim>\<open>s.strip()\<close>.\<close>

function str_replace :: "string \<Rightarrow> string \<Rightarrow> string \<Rightarrow> string" where
  "str_replace old new [] = []"
| "str_replace old new (c # cs) =
     (if old \<noteq> [] \<and> startswith (c # cs) old
      then new @ str_replace old new (drop (length old) (c # cs))
      else c # str_replace old new cs)"
  by pat_completeness auto
termination
  by (relation "measure (\<lambda>(old, new, s). length s)") (auto simp: neq_Nil_conv)

definition str_strip :: "string \<Rightarrow> string" where
  "str_strip s = rev (dropWhile is_space (rev (dropWhile is_space s)))"

section \<open>The pattern extractor and the normalizer: \<^verbatim>\<open>src/ai/email_parser_llm.py\<close>\<close>

text \<open>\<^verbatim>\<open>INVOICE_RE = \bINV[-\s]?\d{3,7}\b\<close> and
  \<^verbatim>\<open>PO_RE = \b45\d{5,6}\b|\bPO[-\s]?\d{3,7}\b\<close>\<close>

definition INVOICE_RE :: "char option \<Rightarrow> string \<Rightarrow> nat option" where
  "INVOICE_RE = match_tag_digits ''INV'' 3 (Some 7)"

definition PO_RE :: "char option \<Rightarrow> string \<Rightarrow> nat option" where
  "PO_RE prev s =
     (case match_po45 prev s of
        Some n \<Rightarrow> Some n
      | None \<Rightarrow> match_tag_digits ''PO'' 3 (Some 7) prev s)"

definition extract_invoice_regex :: "string \<Rightarrow> string option" where
  "extract_invoice_regex txt =
     (case re_search INVOICE_RE None txt of
        None \<Rightarrow> None
      | Some g \<Rightarrow> Some (str_replace '' '' ''-'' (str_upper g)))"

definition extract_po_regex :: "string \<Rightarrow> string option" where
  "extract_po_regex txt =
     (case re_search PO_RE None txt of
        None \<Rightarrow> None
      | Some g \<Rightarrow>
          (let v = str_strip (str_replace ''-'' '''' (str_replace ''PO'' '''' g))
           in Some (if startswith v ''45'' then v else ''45'' @ v)))"

text \<open>
  \<^verbatim>\<open>AMOUNT_RE\<close> has two alternatives: the rupee sign (three bytes in UTF-8), optional white
  space and the group \<^verbatim>\<open>[0-9]{1,3}(?:[,0-9]{3})*(?:\.\d{1,2})?\<close>; or the group
  \<^verbatim>\<open>[0-9]{1,3}(?:[,0-9]{3})+(?:\.\d{1,2})?\<close>. Nothing follows the optional parts, so each
  greedy choice stands, except the leading \<^verbatim>\<open>[0-9]{1,3}\<close> of the second alternative, which
  gives digits back until a group of three fits behind it.
\<close>

definition rupee :: string where
  "rupee = [CHR 0xE2, CHR 0x82, CHR 0xB9]"

definition is_amt :: "char \<Rightarrow> bool" where
  "is_amt c = (c = CHR '','' \<or> is_digit c)"

fun groups3 :: "string \<Rightarrow> nat" where
  "groups3 (a # b # c # r) = (if is_amt a \<and> is_amt b \<and> is_amt c then Suc (groups3 r) else 0)"
| "groups3 r = 0"

text \<open>\<^verbatim>\<open>(?:\.\d{1,2})?\<close>\<close>

definition decimal_tail :: "string \<Rightarrow> nat" where
  "decimal_tail s =
     (if 2 \<le> length s \<and> s ! 0 = CHR ''.'' \<and> is_digit (s ! 1)
      then (if 3 \<le> length s \<and> is_digit (s ! 2) then 3 else 2)
      else 0)"

definition match_amount_body :: "string \<Rightarrow> nat option" where
  "match_amount_body s =
     (let d = min 3 (length (takeWhile is_digit s))
      in if d = 0 then None
         else (let g = groups3 (drop d s)
               in Some (d + 3 * g + decimal_tail (drop (d + 3 * g) s))))"

definition match_amount_grouped_from :: "nat \<Rightarrow> string \<Rightarrow> nat option" where
  "match_amount_grouped_from d s =
     (let g = groups3 (drop d s)
      in if d \<le> length (takeWhile is_digit s) \<and> 0 < g
         then Some (d + 3 * g + decimal_tail (drop (d + 3 * g) s))
         else None)"

definition match_amount_grouped :: "string \<Rightarrow> nat option" where
  "match_amount_grouped s =
     (case match_amount_grouped_from 3 s of
        Some n \<Rightarrow> Some n
      | None \<Rightarrow>
          (case match_amount_grouped_from 2 s of
             Some n \<Rightarrow> Some n
           | None \<Rightarrow> match_amount_grouped_from 1 s))"

text \<open>The length of the match and the text of its group (\<^verbatim>\<open>m.group(1) or m.group(2)\<close>).\<close>

definition AMOUNT_RE :: "string \<Rightarrow> (nat \<times> string) option" where
  "AMOUNT_RE s =
     (if startswith s rupee
      then (let r = drop 3 s;
                k = (case r of [] \<Rightarrow> 0 | c # _ \<Rightarrow> if is_space c then 1 else 0)
            in case match_amount_body (drop k r) of
                 Some n \<Rightarrow> Some (3 + k + n, take n (drop k r))
               | None \<Rightarrow> None)
      else (case match_amount_grouped s of
              Some n \<Rightarrow> Some (n, take n s)
            | None \<Rightarrow> None))"

text \<open>\<^verbatim>\<open>extract_amounts_regex\<close>: the loop over \<^verbatim>\<open>AMOUNT_RE.finditer(text)\<close>; a group that
  \<^verbatim>\<open>float\<close> rejects is skipped.\<close>

fun extract_amounts_regex :: "float_parser \<Rightarrow> string \<Rightarrow> real list" where
  "extract_amounts_regex pf [] = []"
| "extract_amounts_regex pf (c # cs) =
     (case AMOUNT_RE (c # cs) of
        None \<Rightarrow> extract_amounts_regex pf cs
      | Some (n, g) \<Rightarrow>
          (case pf (str_replace '','' '''' g) of None \<Rightarrow> [] | Some v \<Rightarrow> [v])
            @ extract_amounts_regex pf (drop (n - 1) cs))"

subsection \<open>External services and the cache file\<close>

text \<open>
  The OpenAI client, \<^verbatim>\<open>json.loads\<close> and \<^verbatim>\<open>hashlib.sha256\<close> are libraries: they are
  arguments of the model, collected in one record. \<open>chat_completion\<close> is given the model name
  and the messages (role and content) and returns the content of the first choice, or raises.
  \<open>api_key\<close> is the environment variable \<^verbatim>\<open>OPENAI_API_KEY\<close>; \<open>openai_imported\<close> and
  \<open>openai_model\<close> are read by the extractor agent only.
\<close>

record services =
  api_key :: "string option"
  openai_imported :: bool
  openai_model :: string
  chat_completion :: "string \<Rightarrow> (string \<times> string) list \<Rightarrow> error + string"
  json_loads :: "string \<Rightarrow> pyval option"
  sha256_hex :: "string \<Rightarrow> string"

text \<open>
  The state that \<^verbatim>\<open>extract_structured\<close> reads and writes: the JSON objects stored in cache
  files, by path (\<open>None\<close>: no file, or one that \<^verbatim>\<open>json.load\<close> rejects), and the number of calls
  of \<^verbatim>\<open>call_llm_system_user\<close> so far.
\<close>

record world =
  cache_files :: "string \<Rightarrow> pydict option"
  llm_calls :: nat

definition LF :: char where
  "LF = CHR 0x0A"

definition SYSTEM_PROMPT :: string where
  "SYSTEM_PROMPT =
     ''You are a strict JSON extractor. Given an email subject and body, return only valid JSON ''
     @ ''with keys: invoice_number (or null), po_number (or null), invoice_amount (number or null), ''
     @ ''po_amount (number or null), supplier_name (string or null), issue_summary (short string). ''
     @ ''Amounts should be numbers (no currency symbols). Invoice format: INV-1234. PO format: 45xxxxx.''"

text \<open>\<^verbatim>\<open>USER_PROMPT_TEMPLATE.format(subject=subject, body=body)\<close>\<close>

definition user_prompt :: "string \<Rightarrow> string \<Rightarrow> string" where
  "user_prompt subject body =
     ''Email SUBJECT:'' @ [LF] @ subject @ [LF, LF] @ ''Email BODY:'' @ [LF] @ body @ [LF, LF]
     @ ''Return the JSON only.''"

definition call_llm_system_user ::
  "services \<Rightarrow> string \<Rightarrow> string \<Rightarrow> string \<Rightarrow> world \<Rightarrow> (error + string) \<times> world" where
  "call_llm_system_user svc system_prompt usr_prompt model w =
     (let w1 = w\<lparr>llm_calls := Suc (llm_calls w)\<rparr>
      in if (case api_key svc of None \<Rightarrow> True | Some k \<Rightarrow> k = [])
         then (Inl (RuntimeError ''Please set OPENAI_API_KEY in environment''), w1)
         else (chat_completion svc model [(''system'', system_prompt), (''user'', usr_prompt)], w1))"

definition make_key :: "services \<Rightarrow> string \<Rightarrow> string \<Rightarrow> string" where
  "make_key svc subject body = sha256_hex svc (subject @ [LF] @ body)"

definition load_cache :: "world \<Rightarrow> string \<Rightarrow> pydict" where
  "load_cache w path = (case cache_files w path of Some d \<Rightarrow> d | None \<Rightarrow> [])"

definition save_cache :: "string \<Rightarrow> pydict \<Rightarrow> world \<Rightarrow> world" where
  "save_cache path d w = w\<lparr>cache_files := (cache_files w)(path := Some d)\<rparr>"

subsection \<open>Cleaning the provider's output\<close>

text \<open>\<^verbatim>\<open>s.splitlines()\<close>, for the ASCII line breaks.\<close>

definition is_linebreak :: "char \<Rightarrow> bool" where
  "is_linebreak c = (c \<in> set [CHR 0x0A, CHR 0x0B, CHR 0x0C, CHR 0x0D, CHR 0x1C, CHR 0x1D, CHR 0x1E])"

fun splitlines_from :: "string \<Rightarrow> string \<Rightarrow> string list" where
  "splitlines_from cur [] = (if cur = [] then [] else [rev cur])"
| "splitlines_from cur [c] = (if is_linebreak c then [rev cur] else [rev (c # cur)])"
| "splitlines_from cur (c # d # cs) =
     (if c = CHR 0x0D \<and> d = CHR 0x0A then rev cur # splitlines_from [] cs
      else if is_linebreak c then rev cur # splitlines_from [] (d # cs)
      else splitlines_from (c # cur) (d # cs))"

definition splitlines :: "string \<Rightarrow> string list" where
  "splitlines s = splitlines_from [] s"

fun first_index :: "('a \<Rightarrow> bool) \<Rightarrow> 'a list \<Rightarrow> nat option" where
  "first_index P [] = None"
| "first_index P (x # xs) = (if P x then Some 0 else map_option Suc (first_index P xs))"

fun join_lines :: "string list \<Rightarrow> string" where
  "join_lines [] = []"
| "join_lines [l] = l"
| "join_lines (l # ls) = l @ [LF] @ join_lines ls"

definition backtick :: char where
  "backtick = CHR 0x60"

text \<open>The block under \<^verbatim>\<open>if s.startswith("```")\<close>: keep the lines from the first one with an
  opening brace to the last one with a closing brace; when either is missing, the
  \<^verbatim>\<open>except\<close> branch strips the backticks at both ends.\<close>

definition strip_fences :: "string \<Rightarrow> string" where
  "strip_fences s =
     (if startswith s [backtick, backtick, backtick]
      then (let lines = splitlines s
            in case first_index (\<lambda>l. CHR ''{'' \<in> set l) lines of
                 None \<Rightarrow> rev (dropWhile (\<lambda>c. c = backtick) (rev (dropWhile (\<lambda>c. c = backtick) s)))
               | Some start \<Rightarrow>
                   (case first_index (\<lambda>l. CHR ''}'' \<in> set l) (rev lines) of
                      None \<Rightarrow> rev (dropWhile (\<lambda>c. c = backtick) (rev (dropWhile (\<lambda>c. c = backtick) s)))
                    | Some j \<Rightarrow>
                        (let end_ix = length lines - j - 1
                         in join_lines (take (Suc end_ix - start) (drop start lines)))))
      else s)"

text \<open>\<^verbatim>\<open>re.search(r"(\{.*\})", s, re.S)\<close>: from the first opening brace to the last closing
  brace behind it.\<close>

definition json_object_text :: "string \<Rightarrow> string option" where
  "json_object_text s =
     (let t = dropWhile (\<lambda>c. c \<noteq> CHR ''{'') s;
          u = rev (dropWhile (\<lambda>c. c \<noteq> CHR ''}'') (rev t))
      in if u = [] then None else Some u)"

text \<open>The two \<^verbatim>\<open>RuntimeError\<close>s of the parse; the message of the second is cut before the
  text of the \<^verbatim>\<open>json\<close> exception and of the output.\<close>

definition parse_llm_output :: "services \<Rightarrow> string \<Rightarrow> error + pyval" where
  "parse_llm_output svc raw =
     (let s = strip_fences (str_strip raw)
      in case json_object_text s of
           None \<Rightarrow> Inl (RuntimeError (''LLM did not return JSON. Raw:'' @ [LF] @ take 1000 s))
         | Some json_text \<Rightarrow>
             (case json_loads svc json_text of
                None \<Rightarrow> Inl (RuntimeError ''Failed to parse JSON from LLM output.'')
              | Some v \<Rightarrow> Inr v))"

subsection \<open>\<^verbatim>\<open>extract_structured\<close>\<close>

definition opt_str :: "string option \<Rightarrow> pyval" where
  "opt_str v = (case v of None \<Rightarrow> PNone | Some s \<Rightarrow> PStr s)"

text \<open>The regex pass and the dictionary it fills.\<close>

definition regex_result :: "float_parser \<Rightarrow> string \<Rightarrow> pydict" where
  "regex_result pf txt =
     (let invoice = extract_invoice_regex txt;
          po = extract_po_regex txt;
          amounts = extract_amounts_regex pf txt
      in [(''invoice_number'', opt_str invoice),
          (''po_number'', opt_str po),
          (''invoice_amount'', (case amounts of [] \<Rightarrow> PNone | a # _ \<Rightarrow> PFloat a)),
          (''po_amount'', (case amounts of a # b # _ \<Rightarrow> PFloat b | _ \<Rightarrow> PNone)),
          (''supplier_name'', PNone),
          (''issue_summary'', PStr [])])"

definition str_of :: "pyval \<Rightarrow> string" where
  "str_of v = (case v of PStr s \<Rightarrow> s | _ \<Rightarrow> [])"

text \<open>
  The cache lookup and, on a miss, the one call of the provider. The result is the provider's
  parsed output together with the local \<^verbatim>\<open>cache\<close> dictionary, which has the new entry only
  when a cache file is in use.
\<close>

definition fetch_llm_out ::
  "services \<Rightarrow> string \<Rightarrow> string \<Rightarrow> string \<Rightarrow> string option \<Rightarrow> pydict \<Rightarrow> string \<Rightarrow> world
     \<Rightarrow> (error + pyval \<times> pydict) \<times> world" where
  "fetch_llm_out svc subject body llm_model cache_file cache key w =
     (case map_of cache key of
        Some cached \<Rightarrow> (Inr (cached, cache), w)
      | None \<Rightarrow>
          (case call_llm_system_user svc SYSTEM_PROMPT (user_prompt subject body) llm_model w of
             (Inl e, w1) \<Rightarrow> (Inl e, w1)
           | (Inr raw, w1) \<Rightarrow>
               (case parse_llm_output svc raw of
                  Inl e \<Rightarrow> (Inl e, w1)
                | Inr llm_out \<Rightarrow>
                    (case cache_file of
                       None \<Rightarrow> (Inr (llm_out, cache), w1)
                     | Some path \<Rightarrow>
                         (let cache1 = AList.update key llm_out cache
                          in (Inr (llm_out, cache1), save_cache path cache1 w1))))))"

text \<open>The merge loop: a field that the regex pass left \<^verbatim>\<open>None\<close> or empty takes the provider's
  value when that is not \<^verbatim>\<open>None\<close>. \<^verbatim>\<open>llm_out.get\<close> needs a dictionary.\<close>

definition merge_keys :: "string list" where
  "merge_keys = [''invoice_number'', ''po_number'', ''invoice_amount'', ''po_amount'',
                 ''supplier_name'', ''issue_summary'']"

fun merge_llm :: "string list \<Rightarrow> pyval \<Rightarrow> pydict \<Rightarrow> error + pydict" where
  "merge_llm [] llm_out result = Inr result"
| "merge_llm (k # ks) llm_out result =
     (if dict_get result k = PNone \<or> dict_get result k = PStr []
      then (case llm_out of
              PDict d \<Rightarrow>
                if dict_get d k \<noteq> PNone
                then merge_llm ks llm_out (AList.update k (dict_get d k) result)
                else merge_llm ks llm_out result
            | _ \<Rightarrow> Inl AttributeError)
      else merge_llm ks llm_out result)"

text \<open>The numeric conversion of one amount field; every exception gives \<^verbatim>\<open>None\<close>.\<close>

definition coerce_amount :: "float_parser \<Rightarrow> pyval \<Rightarrow> pyval" where
  "coerce_amount pf v =
     (case v of
        PStr s \<Rightarrow> (case pf (str_replace '','' [] s) of Some x \<Rightarrow> PFloat x | None \<Rightarrow> PNone)
      | PNone \<Rightarrow> PNone
      | _ \<Rightarrow> (case py_float pf v of Inr x \<Rightarrow> PFloat x | Inl e \<Rightarrow> PNone))"

definition finish_result ::
  "float_parser \<Rightarrow> pydict \<Rightarrow> pyval \<Rightarrow> bool \<Rightarrow> string \<Rightarrow> error + pydict" where
  "finish_result pf result llm_out used_llm now =
     (case merge_llm merge_keys llm_out result of
        Inl e \<Rightarrow> Inl e
      | Inr r1 \<Rightarrow>
          (let r2 = AList.update ''invoice_amount'' (coerce_amount pf (dict_get r1 ''invoice_amount'')) r1;
               r3 = AList.update ''po_amount'' (coerce_amount pf (dict_get r2 ''po_amount'')) r2;
               r4 = (if \<not> truthy (dict_get r3 ''issue_summary'')
                     then AList.update ''issue_summary'' (PStr ''Merged regex + LLM extraction'') r3
                     else r3)
           in Inr (AList.update ''_meta''
                     (PDict [(''extracted_at'', PStr now), (''used_llm'', PBool used_llm)]) r4)))"

text \<open>
  \<open>now\<close> is what \<^verbatim>\<open>datetime.utcnow().isoformat()\<close> reads at the end of the call;
  \<open>cache_path = None\<close> is the default argument.
\<close>

definition extract_structured ::
  "float_parser \<Rightarrow> services \<Rightarrow> string \<Rightarrow> string \<Rightarrow> bool \<Rightarrow> string \<Rightarrow> string option \<Rightarrow> string
     \<Rightarrow> world \<Rightarrow> (error + pydict) \<times> world" where
  "extract_structured pf svc subject body use_llm_if_missing llm_model cache_path now w =
     (let result = regex_result pf (subject @ [LF] @ body);
          invoice = dict_get result ''invoice_number'';
          po = dict_get result ''po_number''
      in if truthy invoice \<and> truthy po
         then (Inr (AList.update ''issue_summary''
                      (PStr (''Extracted invoice '' @ str_of invoice @ '' and PO '' @ str_of po
                             @ '' via regex'')) result), w)
         else if \<not> use_llm_if_missing
         then (Inr (AList.update ''issue_summary'' (PStr ''Incomplete via regex; LLM disabled'')
                      result), w)
         else (let cache_file = (case cache_path of
                                   None \<Rightarrow> None
                                 | Some p \<Rightarrow> if p = [] then None else Some p);
                   cache = (case cache_file of None \<Rightarrow> [] | Some p \<Rightarrow> load_cache w p);
                   key = make_key svc subject body
               in case fetch_llm_out svc subject body llm_model cache_file cache key w of
                    (Inl e, w1) \<Rightarrow> (Inl e, w1)
                  | (Inr (llm_out, cache1), w1) \<Rightarrow>
                      (finish_result pf result llm_out
                         (case cache_file of None \<Rightarrow> True | Some p \<Rightarrow> map_of cache1 key = None)
                         now,
                       w1)))"

section \<open>The batch extraction: \<^verbatim>\<open>src/agents/extractor_agent.py\<close>\<close>

text \<open>
  One record of \<^verbatim>\<open>emails.json\<close>; subject and body are strings, as the parameters of
  \<^verbatim>\<open>extract_structured\<close> are declared.
\<close>

record email_record =
  em_id :: pyval
  em_sender_name :: pyval
  em_sender_email :: pyval
  em_subject :: string
  em_body :: string

definition CACHE_PATH :: string where
  "CACHE_PATH = ''data/processed/extraction_cache.json''"

definition extracted_record :: "email_record \<Rightarrow> pydict \<Rightarrow> pydict" where
  "extracted_record e structured =
     [(''email_id'', em_id e), (''sender_name'', em_sender_name e),
      (''sender_email'', em_sender_email e), (''subject'', PStr (em_subject e)),
      (''body'', PStr (em_body e)), (''extracted'', PDict structured)]"

text \<open>
  The loop of \<^verbatim>\<open>run_extraction\<close>. It has no \<^verbatim>\<open>try\<close>: an exception of
  \<^verbatim>\<open>extract_structured\<close> leaves the loop and the function. The result is the exception, if
  any, the state, and the records written to the output file so far. \<open>clock i\<close> is the time
  read while the \<open>i\<close>-th email is processed.
\<close>

fun run_extraction_loop ::
  "float_parser \<Rightarrow> services \<Rightarrow> bool \<Rightarrow> string \<Rightarrow> (nat \<Rightarrow> string) \<Rightarrow> nat \<Rightarrow> email_record list
     \<Rightarrow> world \<Rightarrow> pydict list \<Rightarrow> error option \<times> world \<times> pydict list" where
  "run_extraction_loop pf svc use_llm llm_model clock i [] w written = (None, w, written)"
| "run_extraction_loop pf svc use_llm llm_model clock i (e # es) w written =
     (case extract_structured pf svc (em_subject e) (em_body e) use_llm llm_model
             (Some CACHE_PATH) (clock i) w of
        (Inl err, w1) \<Rightarrow> (Some err, w1, written)
      | (Inr structured, w1) \<Rightarrow>
          run_extraction_loop pf svc use_llm llm_model clock (Suc i) es w1
            (written @ [extracted_record e structured]))"

definition run_extraction ::
  "float_parser \<Rightarrow> services \<Rightarrow> bool \<Rightarrow> string \<Rightarrow> (nat \<Rightarrow> string) \<Rightarrow> email_record list \<Rightarrow> world
     \<Rightarrow> error option \<times> world \<times> pydict list" where
  "run_extraction pf svc use_llm_if_missing llm_model clock emails w =
     run_extraction_loop pf svc use_llm_if_missing llm_model clock 0 emails w []"

section \<open>The extractor agent: \<^verbatim>\<open>src/agents/extractor.py\<close>\<close>

text \<open>\<^verbatim>\<open>INV_RE = \bINV[-\s]?\d{3,}\b\<close>, \<^verbatim>\<open>PO_RE = \bPO[-\s]?\d{4,}\b\<close> (named \<open>agent_PO_RE\<close>
  here, the normalizer has a pattern of the same name) and
  \<^verbatim>\<open>AMT_RE = INR\s?([\d,]+(?:\.\d{1,2})?)\<close>, whose matcher returns the text of the group.\<close>

definition INV_RE :: "char option \<Rightarrow> string \<Rightarrow> nat option" where
  "INV_RE = match_tag_digits ''INV'' 3 None"

definition agent_PO_RE :: "char option \<Rightarrow> string \<Rightarrow> nat option" where
  "agent_PO_RE = match_tag_digits ''PO'' 4 None"

definition AMT_RE :: "string \<Rightarrow> string option" where
  "AMT_RE s =
     (if 3 \<le> length s \<and> str_upper (take 3 s) = ''INR''
      then (let r = drop 3 s;
                k = (case r of [] \<Rightarrow> 0 | c # _ \<Rightarrow> if is_space c then 1 else 0);
                t = drop k r;
                n = length (takeWhile is_amt t)
            in if n = 0 then None else Some (take (n + decimal_tail (drop n t)) t))
      else None)"

fun amt_search :: "string \<Rightarrow> string option" where
  "amt_search [] = None"
| "amt_search (c # cs) =
     (case AMT_RE (c # cs) of Some g \<Rightarrow> Some g | None \<Rightarrow> amt_search cs)"

text \<open>\<^verbatim>\<open>sub in s\<close>\<close>

fun contains :: "string \<Rightarrow> string \<Rightarrow> bool" where
  "contains [] sub = (sub = [])"
| "contains (c # cs) sub = (startswith (c # cs) sub \<or> contains cs sub)"

definition claim_type_of :: "string \<Rightarrow> string" where
  "claim_type_of lower =
     (if contains lower ''short'' then ''short_delivery''
      else if contains lower ''tax'' then ''tax_mismatch''
      else if contains lower ''not received'' \<or> contains lower ''never received'' then ''not_received''
      else if contains lower ''duplicate'' then ''duplicate_invoice''
      else ''other'')"

text \<open>\<^verbatim>\<open>_regex_extract\<close>. The conversion of the amount is not guarded: a group without a
  digit makes \<^verbatim>\<open>float\<close> raise.\<close>

definition regex_extract :: "float_parser \<Rightarrow> string \<Rightarrow> error + pydict" where
  "regex_extract pf body =
     (let inv = re_search INV_RE None body;
          po = re_search agent_PO_RE None body;
          amt = amt_search body;
          invoice = opt_str (map_option (str_replace '' '' []) inv);
          po_number = opt_str (map_option (str_replace '' '' []) po)
      in case (case amt of
                 None \<Rightarrow> Inr PNone
               | Some g \<Rightarrow> (case pf (str_replace '','' [] g) of
                              None \<Rightarrow> Inl ValueError
                            | Some x \<Rightarrow> Inr (PFloat x))) of
           Inl e \<Rightarrow> Inl e
         | Inr claimed_amount \<Rightarrow>
             Inr [(''invoice_number'', invoice),
                  (''po_number'', po_number),
                  (''claimed_amount'', claimed_amount),
                  (''currency'', (if truthy claimed_amount then PStr ''INR'' else PNone)),
                  (''claim_type'', PStr (claim_type_of (str_lower body))),
                  (''claim_text'', PStr (take 300 (str_replace [LF] '' '' (str_strip body)))),
                  (''confidence'', PFloat 0.6)])"

definition dq :: char where
  "dq = CHR 0x22"

definition LLM_PROMPT :: string where
  "LLM_PROMPT =
     [LF] @ ''You are an extractor that MUST output JSON only following this schema:'' @ [LF]
     @ ''{ '' @ [dq] @ ''invoice_number'' @ [dq] @ '': null or '' @ [dq] @ ''INV-0001'' @ [dq]
     @ '', '' @ [dq] @ ''po_number'' @ [dq] @ '': null or '' @ [dq] @ ''PO-2024-0001'' @ [dq]
     @ '','' @ [LF]
     @ ''  '' @ [dq] @ ''claimed_amount'' @ [dq] @ '': null or number, '' @ [dq] @ ''currency''
     @ [dq] @ '': '' @ [dq] @ ''INR'' @ [dq] @ '' or null,'' @ [LF]
     @ ''  '' @ [dq] @ ''claim_type'' @ [dq]
     @ '': one of [short_delivery, tax_mismatch, not_received, duplicate_invoice, other],'' @ [LF]
     @ ''  '' @ [dq] @ ''claim_text'' @ [dq] @ '': short sentence, '' @ [dq] @ ''confidence''
     @ [dq] @ '': number 0-1 }'' @ [LF, LF]
     @ ''Return JSON only. Now extract from the email below:'' @ [LF, LF]
     @ [dq, dq, dq] @ ''<<EMAIL_BODY>>'' @ [dq, dq, dq] @ [LF]"

text \<open>\<^verbatim>\<open>_call_openai\<close>: \<^verbatim>\<open>None\<close> without a key or a client, and whenever the call, the
  parse or the conversion of the confidence raises.\<close>

definition call_openai :: "float_parser \<Rightarrow> services \<Rightarrow> string \<Rightarrow> pydict option" where
  "call_openai pf svc body =
     (if (case api_key svc of None \<Rightarrow> True | Some k \<Rightarrow> k = []) \<or> \<not> openai_imported svc
      then None
      else (case chat_completion svc (openai_model svc)
                   [(''user'', str_replace ''<<EMAIL_BODY>>'' body LLM_PROMPT)] of
              Inl e \<Rightarrow> None
            | Inr content \<Rightarrow>
                (case json_loads svc (str_strip content) of
                   Some (PDict parsed) \<Rightarrow>
                     (case py_float pf (dict_get_default parsed ''confidence'' (PFloat 0.5)) of
                        Inl e \<Rightarrow> None
                      | Inr c \<Rightarrow> Some (AList.update ''confidence'' (PFloat c) parsed))
                 | _ \<Rightarrow> None)))"

definition regex_fallback :: "float_parser \<Rightarrow> string \<Rightarrow> error + pydict" where
  "regex_fallback pf body =
     (case regex_extract pf body of
        Inl e \<Rightarrow> Inl e
      | Inr r \<Rightarrow> Inr (AList.update ''llm_raw'' PNone r))"

text \<open>\<^verbatim>\<open>extract\<close>, under the name the runner imports it by.
  \<^verbatim>\<open>body = email_obj.get("body","") or ""\<close>; a body that is not a string raises
  \<^verbatim>\<open>TypeError\<close> where it is first used as one.\<close>

definition extractor_extract :: "float_parser \<Rightarrow> services \<Rightarrow> pydict \<Rightarrow> error + pydict" where
  "extractor_extract pf svc email_obj =
     (case py_or (dict_get_default email_obj ''body'' (PStr [])) (PStr []) of
        PStr body \<Rightarrow>
          (case call_openai pf svc body of
             None \<Rightarrow> regex_fallback pf body
           | Some llm_result \<Rightarrow>
               if llm_result \<noteq> []
               then (case py_float pf (dict_get_default llm_result ''confidence'' (PFloat 0.5)) of
                       Inl e \<Rightarrow> Inl e
                     | Inr c \<Rightarrow>
                         Inr [(''invoice_number'', dict_get llm_result ''invoice_number''),
                              (''po_number'', dict_get llm_result ''po_number''),
                              (''claimed_amount'', dict_get llm_result ''claimed_amount''),
                              (''currency'', dict_get llm_result ''currency''),
                              (''claim_type'', dict_get llm_result ''claim_type''),
                              (''claim_text'', dict_get llm_result ''claim_text''),
                              (''confidence'', PFloat c),
                              (''llm_raw'', PDict llm_result)])
               else regex_fallback pf body)
      | _ \<Rightarrow> Inl TypeError)"

section \<open>The runner: \<^verbatim>\<open>runner.py\<close>\<close>

text \<open>
  \<^verbatim>\<open>scorer_compute(extraction, verification, email.get("from") or "")\<close>: a sender that is
  not a string passes the first checks and then has no \<^verbatim>\<open>lower\<close>.
\<close>

definition score_email :: "float_parser \<Rightarrow> pydict \<Rightarrow> pydict \<Rightarrow> pyval \<Rightarrow> error + pydict" where
  "score_email pf extraction verification sender =
     (case sender of
        PStr s \<Rightarrow> compute_score pf extraction verification s
      | _ \<Rightarrow> (case compute_score pf extraction verification [] of
                Inl e \<Rightarrow> Inl e
              | Inr r \<Rightarrow> Inl AttributeError))"

text \<open>The body of the loop of \<^verbatim>\<open>process_all\<close> for one email (a parsed line of the input
  file): extractor, verifier, scorer, and the bundle appended to \<^verbatim>\<open>summaries\<close>.\<close>

definition process_email ::
  "float_parser \<Rightarrow> services \<Rightarrow> connection option \<Rightarrow> pydict \<Rightarrow> error + pydict" where
  "process_email pf svc conn email =
     (case extractor_extract pf svc email of
        Inl e \<Rightarrow> Inl e
      | Inr extraction \<Rightarrow>
          (case verify pf conn extraction of
             Inl e \<Rightarrow> Inl e
           | Inr verification \<Rightarrow>
               (case score_email pf extraction verification
                       (py_or (dict_get email ''from'') (PStr [])) of
                  Inl e \<Rightarrow> Inl e
                | Inr score \<Rightarrow>
                    Inr [(''email_id'', dict_get email ''email_id''),
                         (''subject'', dict_get email ''subject''),
                         (''extraction'', PDict extraction),
                         (''verification'', PDict verification),
                         (''score'', PDict score)])))"

text \<open>
  The loop has no \<^verbatim>\<open>try\<close>: an exception for one email leaves \<^verbatim>\<open>process_all\<close>, which then
  neither writes the summary file nor returns \<^verbatim>\<open>summaries\<close>. \<open>conn\<close> is what \<^verbatim>\<open>_connect()\<close>
  returns during the run.
\<close>

fun process_loop ::
  "float_parser \<Rightarrow> services \<Rightarrow> connection option \<Rightarrow> pydict list \<Rightarrow> pydict list
     \<Rightarrow> error + pydict list" where
  "process_loop pf svc conn [] summaries = Inr summaries"
| "process_loop pf svc conn (email # emails) summaries =
     (case process_email pf svc conn email of
        Inl e \<Rightarrow> Inl e
      | Inr bundle \<Rightarrow> process_loop pf svc conn emails (summaries @ [bundle]))"

definition process_all ::
  "float_parser \<Rightarrow> services \<Rightarrow> connection option \<Rightarrow> pydict list \<Rightarrow> error + pydict list" where
  "process_all pf svc conn emails = process_loop pf svc conn emails []"

section \<open>Accessors and example inputs\<close>

text \<open>The score of a result of \<open>compute_score\<close>.\<close>

definition suspicious_score :: "pydict \<Rightarrow> real" where
  "suspicious_score r = (case dict_get r ''suspicious_score'' of PFloat x \<Rightarrow> x | _ \<Rightarrow> 0)"

text \<open>
  A float parser for the examples: it reads a non-empty string of ASCII digits, as
  \<^verbatim>\<open>float\<close> does, and is used only where no other string reaches \<^verbatim>\<open>float\<close>.
\<close>

definition digit_of :: "char \<Rightarrow> nat option" where
  "digit_of c = map_of (zip ''0123456789'' [0, 1, 2, 3, 4, 5, 6, 7, 8, 9]) c"

fun digits_value :: "nat \<Rightarrow> string \<Rightarrow> nat option" where
  "digits_value acc [] = Some acc"
| "digits_value acc (c # cs) =
     (case digit_of c of None \<Rightarrow> None | Some d \<Rightarrow> digits_value (10 * acc + d) cs)"

definition digits_parser :: float_parser where
  "digits_parser s = (if s = [] then None else map_option real (digits_value 0 s))"

text \<open>An extraction and a verification as the agents produce them.\<close>

definition ex_extraction :: pydict where
  "ex_extraction =
     [(''invoice_number'', PStr ''INV-4521''), (''po_number'', PStr ''4500123''),
      (''claimed_amount'', PFloat 1200), (''currency'', PStr ''INR''),
      (''claim_type'', PStr ''not_received''), (''claim_text'', PStr ''goods not received''),
      (''confidence'', PFloat 0.6), (''llm_raw'', PNone)]"

definition ex_verification :: pydict where
  "ex_verification =
     [(''invoice_exists'', PBool False), (''invoice_id'', PNone), (''invoice_amount'', PNone),
      (''po_exists'', PBool True), (''po_id'', PInt 7), (''grn_exists'', PBool True),
      (''grn_ids'', PList [PInt 11, PInt 12]),
      (''contradictions'', PList [PStr ''not_received_but_grn_exists''])]"


text \<open>Record stores for the examples: one with goods receipts for every purchase order and
  no invoice, one whose invoices have the amount 0, one with an invoice of 1000 and goods
  receipts, and one whose first query raises.\<close>

definition grn_store :: connection where
  "grn_store =
     \<lparr>select_invoice = (\<lambda>inv. Inr None),
      select_purchase_order = (\<lambda>po. Inr (Some 7)),
      select_goods_receipt = (\<lambda>po_id. Inr [11, 12])\<rparr>"

definition zero_amount_store :: connection where
  "zero_amount_store =
     \<lparr>select_invoice = (\<lambda>inv. Inr (Some \<lparr>invoice_id = 1, amount = Some 0, sap_status = PStr ''OPEN''\<rparr>)),
      select_purchase_order = (\<lambda>po. Inr None),
      select_goods_receipt = (\<lambda>po_id. Inr [])\<rparr>"

definition low_confidence_claim :: pydict where
  "low_confidence_claim =
     [(''invoice_number'', PNone), (''po_number'', PStr ''4500123''),
      (''claimed_amount'', PNone), (''claim_type'', PStr ''not_received''),
      (''confidence'', PFloat 0.2)]"

definition audit_store :: connection where
  "audit_store =
     \<lparr>select_invoice = (\<lambda>ivn. Inr (Some \<lparr>invoice_id = 3, amount = Some 1000, sap_status = PStr ''OPEN''\<rparr>)),
      select_purchase_order = (\<lambda>po. Inr (Some 7)),
      select_goods_receipt = (\<lambda>po_id. Inr [11, 12])\<rparr>"

definition failing_store :: connection where
  "failing_store =
     \<lparr>select_invoice = (\<lambda>ivn. Inl (DatabaseError ''server closed the connection'')),
      select_purchase_order = (\<lambda>po. Inr None),
      select_goods_receipt = (\<lambda>po_id. Inr [])\<rparr>"

definition ex_audit_result :: pydict where
  "ex_audit_result =
     [(''invoice_exists'', PBool True), (''invoice_id'', PInt 3), (''invoice_amount'', PFloat 1000),
      (''po_exists'', PBool True), (''po_id'', PInt 7), (''grn_exists'', PBool True),
      (''grn_ids'', PList [PInt 11, PInt 12]),
      (''contradictions'', PList [PStr ''not_received_but_grn_exists'', PStr ''amount_mismatch'']),
      (''invoice_status'', PStr ''OPEN'')]"

text \<open>The result of \<open>extract_structured\<close> with the time stamp in \<open>_meta\<close> replaced, when it
  has one.\<close>

definition set_extracted_at :: "string \<Rightarrow> pydict \<Rightarrow> pydict" where
  "set_extracted_at t d =
     (case map_of d ''_meta'' of
        Some (PDict m) \<Rightarrow> AList.update ''_meta'' (PDict (AList.update ''extracted_at'' (PStr t) m)) d
      | _ \<Rightarrow> d)"

text \<open>
  Services for the examples. The digest is replaced by the identity, which is as free of
  collisions as the examples need; \<open>json_loads\<close> reads the one text the example provider
  sends. \<open>offline_services\<close> has a provider that raises, \<open>answering_services\<close> one that
  answers with an empty JSON object.
\<close>

definition offline_services :: services where
  "offline_services =
     \<lparr>api_key = Some ''sk-test'', openai_imported = True, openai_model = ''gpt-4o-mini'',
      chat_completion = (\<lambda>model messages. Inl (OpenAIError ''Connection error.'')),
      json_loads = (\<lambda>s. if s = ''{}'' then Some (PDict []) else None),
      sha256_hex = (\<lambda>s. s)\<rparr>"

definition answering_services :: services where
  "answering_services =
     \<lparr>api_key = Some ''sk-test'', openai_imported = True, openai_model = ''gpt-4o-mini'',
      chat_completion = (\<lambda>model messages. Inr ''{}''),
      json_loads = (\<lambda>s. if s = ''{}'' then Some (PDict []) else None),
      sha256_hex = (\<lambda>s. s)\<rparr>"

definition empty_world :: world where
  "empty_world = \<lparr>cache_files = (\<lambda>path. None), llm_calls = 0\<rparr>"

text \<open>A state whose cache file holds an entry for the email \<open>Claim\<close> / \<open>Goods not received\<close>.\<close>

definition warm_world :: world where
  "warm_world =
     \<lparr>cache_files = (\<lambda>path. if path = CACHE_PATH
          then Some [(''Claim'' @ [LF] @ ''Goods not received'',
                      PDict [(''po_number'', PStr ''4500999''),
                             (''issue_summary'', PStr ''Goods not received'')])]
          else None),
      llm_calls = 0\<rparr>"

definition email_no_refs :: email_record where
  "email_no_refs =
     \<lparr>em_id = PStr ''E1'', em_sender_name = PStr ''Asha'',
      em_sender_email = PStr ''asha@vendor.example'',
      em_subject = ''Claim'', em_body = ''Goods not received''\<rparr>"

definition email_with_refs :: email_record where
  "email_with_refs =
     \<lparr>em_id = PStr ''E2'', em_sender_name = PStr ''Ravi'',
      em_sender_email = PStr ''ravi@vendor.example'',
      em_subject = ''Short delivery'', em_body = ''INV-452 PO-123 short by 2 drums''\<rparr>"

definition morning :: "nat \<Rightarrow> string" where
  "morning i = ''2024-05-01T10:00:00''"

text \<open>Services without an API key, and two lines of the runner's input: one whose body has
  \<open>INR\<close> followed by a comma and no digit, and an ordinary one.\<close>

definition no_key_services :: services where
  "no_key_services =
     \<lparr>api_key = None, openai_imported = True, openai_model = ''gpt-4o-mini'',
      chat_completion = (\<lambda>model messages. Inl (OpenAIError ''Connection error.'')),
      json_loads = (\<lambda>s. if s = ''{}'' then Some (PDict []) else None),
      sha256_hex = (\<lambda>s. s)\<rparr>"

definition line_inr_comma :: pydict where
  "line_inr_comma =
     [(''email_id'', PStr ''E3''), (''from'', PStr ''asha@vendor.example''),
      (''subject'', PStr ''Payment''), (''body'', PStr ''Balance in INR, please confirm'')]"

definition line_plain :: pydict where
  "line_plain =
     [(''email_id'', PStr ''E4''), (''from'', PStr ''ap@abcchem.com''),
      (''subject'', PStr ''Delivery''), (''body'', PStr ''INV-4521 not received'')]"

text \<open>What \<open>extract_structured\<close> returns for the cached email at the time \<open>t\<close>.\<close>

definition warm_result :: "string \<Rightarrow> pydict" where
  "warm_result t =
     [(''invoice_number'', PNone), (''po_number'', PStr ''4500999''),
      (''invoice_amount'', PNone), (''po_amount'', PNone), (''supplier_name'', PNone),
      (''issue_summary'', PStr ''Goods not received''),
      (''_meta'', PDict [(''extracted_at'', PStr t), (''used_llm'', PBool False)])]"

section \<open>Properties of the scorer\<close>

lemma round_half_even_near:
  "x - 1/2 \<le> of_int (round_half_even x) \<and> of_int (round_half_even x) \<le> x + 1/2"
  unfolding round_half_even_def Let_def by (auto; linarith)

lemma round_half_even_of_int: "round_half_even (of_int k) = k"
  by (simp add: round_half_even_def)

lemma round_half_even_mono:
  assumes "x \<le> y"
  shows "round_half_even x \<le> round_half_even y"
proof (cases "\<lfloor>x\<rfloor> = \<lfloor>y\<rfloor>")
  case True
  with assms show ?thesis
    unfolding round_half_even_def Let_def by (auto; linarith)
next
  case False
  with assms have lt: "\<lfloor>x\<rfloor> + 1 \<le> \<lfloor>y\<rfloor>"
    using floor_mono [of x y] by linarith
  have "round_half_even x \<le> \<lfloor>x\<rfloor> + 1"
    unfolding round_half_even_def Let_def by auto
  moreover have "\<lfloor>y\<rfloor> \<le> round_half_even y"
    unfolding round_half_even_def Let_def by auto
  ultimately show ?thesis using lt by linarith
qed

lemma py_round3_mono: "x \<le> y \<Longrightarrow> py_round3 x \<le> py_round3 y"
  unfolding py_round3_def
  using round_half_even_mono [of "x * 1000" "y * 1000"] by (simp add: divide_right_mono)


lemma py_round3_near: "\<bar>py_round3 x - x\<bar> \<le> 1/2000"
proof -
  define r where "r = real_of_int (round_half_even (x * 1000))"
  have "x * 1000 - 1/2 \<le> r" and "r \<le> x * 1000 + 1/2"
    using round_half_even_near [of "x * 1000"] by (simp_all add: r_def)
  then have "r / 1000 - x \<le> 1/2000" and "- (1/2000) \<le> r / 1000 - x"
    by linarith+
  then show ?thesis
    unfolding py_round3_def r_def [symmetric] by linarith
qed


lemma dict_get_update:
  "dict_get (AList.update k v d) k' = (if k' = k then v else dict_get d k')"
  by (simp add: dict_get_def update_conv')

lemma dict_get_default_update:
  "dict_get_default (AList.update k v d) k' dflt = (if k' = k then v else dict_get_default d k' dflt)"
  by (simp add: dict_get_default_def update_conv')

lemma fst_sender_bump:
  "fst (sender_bump s st) =
     fst st + (if s \<noteq> [] \<and> \<not> endswith (str_lower s) ''@abcchem.com'' then 0.15 else 0)"
  by (simp add: sender_bump_def)

lemma fst_invoice_missing_bump:
  "fst (invoice_missing_bump E V st) =
     fst st + (if truthy (dict_get E ''invoice_number'') \<and> \<not> truthy (dict_get V ''invoice_exists'')
               then 0.30 else 0)"
  by (simp add: invoice_missing_bump_def)

lemma contradictions_bump_list:
  "dict_get V ''contradictions'' = PList cs \<Longrightarrow>
   contradictions_bump V st = Inr (if cs = [] then st else (fst st + 0.35, snd st @ cs))"
  by (auto simp: contradictions_bump_def dict_get_def dict_get_default_def split: option.splits)

lemma compute_score_eq:
  assumes "confidence_of pf E = Inr c" and "contradictions_bump V (1 - c, []) = Inr st1"
  shows "compute_score pf E V s =
     Inr [(''suspicious_score'', PFloat (py_round3 (max 0 (min 1 (fst (sender_bump s (invoice_missing_bump E V st1))))))),
          (''action'', PStr (action_of (max 0 (min 1 (fst (sender_bump s (invoice_missing_bump E V st1))))))),
          (''reasons'', PList (snd (sender_bump s (invoice_missing_bump E V st1))))]"
  using assms by (simp add: compute_score_def Let_def)

lemma suspicious_score_result:
  "suspicious_score [(''suspicious_score'', PFloat x), (''action'', a), (''reasons'', b)] = x"
  by (simp add: suspicious_score_def dict_get_def)

lemma clamp_round_mono:
  "a \<le> b \<Longrightarrow> py_round3 (max 0 (min 1 a)) \<le> py_round3 (max 0 (min 1 b))"
  by (rule py_round3_mono) linarith

lemma compute_score_InrD:
  assumes "compute_score pf E V s = Inr r"
  obtains c st1 where "confidence_of pf E = Inr c"
    and "contradictions_bump V (1 - c, []) = Inr st1"
    and "r = [(''suspicious_score'', PFloat (py_round3 (max 0 (min 1 (fst (sender_bump s (invoice_missing_bump E V st1))))))),
              (''action'', PStr (action_of (max 0 (min 1 (fst (sender_bump s (invoice_missing_bump E V st1))))))),
              (''reasons'', PList (snd (sender_bump s (invoice_missing_bump E V st1))))]"
  using assms by (auto simp: compute_score_def Let_def split: sum.splits)

lemma mono_contradictions:
  assumes "compute_score pf E (AList.update ''contradictions'' (PList []) V) s = Inr r0"
  shows "\<exists>r1. compute_score pf E (AList.update ''contradictions'' (PList cs) V) s = Inr r1
            \<and> suspicious_score r0 \<le> suspicious_score r1"
proof -
  let ?V0 = "AList.update ''contradictions'' (PList []) V"
  let ?V1 = "AList.update ''contradictions'' (PList cs) V"
  from assms obtain c st0 where c: "confidence_of pf E = Inr c"
    and st0: "contradictions_bump ?V0 (1 - c, []) = Inr st0"
    and r0: "r0 = [(''suspicious_score'', PFloat (py_round3 (max 0 (min 1 (fst (sender_bump s (invoice_missing_bump E ?V0 st0))))))),
              (''action'', PStr (action_of (max 0 (min 1 (fst (sender_bump s (invoice_missing_bump E ?V0 st0))))))),
              (''reasons'', PList (snd (sender_bump s (invoice_missing_bump E ?V0 st0))))]"
    by (rule compute_score_InrD)
  have st0': "st0 = (1 - c, [])"
    using st0 contradictions_bump_list [of ?V0 "[]"] by (simp add: dict_get_update)
  define st1 where "st1 = (if cs = [] then (1 - c, []) else (1 - c + 0.35, cs))"
  have st1: "contradictions_bump ?V1 (1 - c, []) = Inr st1"
    using contradictions_bump_list [of ?V1 cs "(1 - c, [])"] by (simp add: dict_get_update st1_def)
  have inv: "dict_get ?V0 ''invoice_exists'' = dict_get ?V1 ''invoice_exists''"
    by (simp add: dict_get_update)
  have le: "fst (sender_bump s (invoice_missing_bump E ?V0 st0))
      \<le> fst (sender_bump s (invoice_missing_bump E ?V1 st1))"
    unfolding fst_sender_bump fst_invoice_missing_bump inv st0' st1_def by simp
  show ?thesis
    unfolding compute_score_eq [OF c st1] r0 suspicious_score_result
    using clamp_round_mono [OF le] by (simp add: suspicious_score_result)
qed

lemma mono_invoice:
  assumes "compute_score pf E (AList.update ''invoice_exists'' (PBool True) V) s = Inr r0"
  shows "\<exists>r1. compute_score pf E (AList.update ''invoice_exists'' (PBool False) V) s = Inr r1
            \<and> suspicious_score r0 \<le> suspicious_score r1"
proof -
  let ?V0 = "AList.update ''invoice_exists'' (PBool True) V"
  let ?V1 = "AList.update ''invoice_exists'' (PBool False) V"
  from assms obtain c st0 where c: "confidence_of pf E = Inr c"
    and st0: "contradictions_bump ?V0 (1 - c, []) = Inr st0"
    and r0: "r0 = [(''suspicious_score'', PFloat (py_round3 (max 0 (min 1 (fst (sender_bump s (invoice_missing_bump E ?V0 st0))))))),
              (''action'', PStr (action_of (max 0 (min 1 (fst (sender_bump s (invoice_missing_bump E ?V0 st0))))))),
              (''reasons'', PList (snd (sender_bump s (invoice_missing_bump E ?V0 st0))))]"
    by (rule compute_score_InrD)
  have same: "contradictions_bump ?V1 st = contradictions_bump ?V0 st" for st
    by (simp add: contradictions_bump_def dict_get_update dict_get_default_update)
  have st1: "contradictions_bump ?V1 (1 - c, []) = Inr st0"
    using st0 by (simp add: same)
  have le: "fst (sender_bump s (invoice_missing_bump E ?V0 st0))
      \<le> fst (sender_bump s (invoice_missing_bump E ?V1 st0))"
    unfolding fst_sender_bump fst_invoice_missing_bump by (simp add: dict_get_update)
  show ?thesis
    unfolding compute_score_eq [OF c st1] r0 suspicious_score_result
    using clamp_round_mono [OF le] by (simp add: suspicious_score_result)
qed

lemma mono_sender:
  assumes "endswith (str_lower t) ''@abcchem.com''"
    and "compute_score pf E V t = Inr r0"
  shows "\<exists>r1. compute_score pf E V s = Inr r1 \<and> suspicious_score r0 \<le> suspicious_score r1"
proof -
  from assms(2) obtain c st0 where c: "confidence_of pf E = Inr c"
    and st0: "contradictions_bump V (1 - c, []) = Inr st0"
    and r0: "r0 = [(''suspicious_score'', PFloat (py_round3 (max 0 (min 1 (fst (sender_bump t (invoice_missing_bump E V st0))))))),
              (''action'', PStr (action_of (max 0 (min 1 (fst (sender_bump t (invoice_missing_bump E V st0))))))),
              (''reasons'', PList (snd (sender_bump t (invoice_missing_bump E V st0))))]"
    by (rule compute_score_InrD)
  have le: "fst (sender_bump t (invoice_missing_bump E V st0))
      \<le> fst (sender_bump s (invoice_missing_bump E V st0))"
    unfolding fst_sender_bump using assms(1) by simp
  show ?thesis
    unfolding compute_score_eq [OF c st0] r0 suspicious_score_result
    using clamp_round_mono [OF le] by (simp add: suspicious_score_result)
qed

lemma endswith_map:
  assumes "endswith t p" shows "endswith (map f t) (map f p)"
  using assms by (auto simp: endswith_def drop_map)

lemma lower_suffix: "str_lower ''@abcchem.com'' = ''@abcchem.com''"
  by (simp add: str_lower_def lower_c_def upper_letters_def lower_letters_def)







text \<open>
  Claim C9. The returned score is monotone in each risk signal, all other inputs fixed:
  if \<open>compute_score\<close> returns with an empty contradiction list, it returns with any
  contradiction list and a score at least as large; if it returns with \<open>invoice_exists\<close>
  true, it returns with \<open>invoice_exists\<close> false and a score at least as large; and if it
  returns for a sender ending with the trusted suffix, it returns for any other sender with a
  score at least as large.
\<close>

theorem compute_score_monotone:
  "(compute_score pf E (AList.update ''contradictions'' (PList []) V) s = Inr ra \<longrightarrow>
      (\<exists>r1. compute_score pf E (AList.update ''contradictions'' (PList cs) V) s = Inr r1
            \<and> suspicious_score ra \<le> suspicious_score r1))
   \<and> (compute_score pf E (AList.update ''invoice_exists'' (PBool True) V) s = Inr rb \<longrightarrow>
      (\<exists>r1. compute_score pf E (AList.update ''invoice_exists'' (PBool False) V) s = Inr r1
            \<and> suspicious_score rb \<le> suspicious_score r1))
   \<and> (endswith (str_lower t) ''@abcchem.com'' \<and> compute_score pf E V t = Inr rc \<longrightarrow>
      (\<exists>r1. compute_score pf E V s = Inr r1 \<and> suspicious_score rc \<le> suspicious_score r1))"
  using mono_contradictions [of pf E V s ra cs] mono_invoice [of pf E V s rb]
    mono_sender [of t pf E V rc s]
  by blast

theorem compute_score_monotone_witness:
  "compute_score digits_parser ex_extraction
      (AList.update ''contradictions'' (PList []) ex_verification) ''billing@vendor.example''
     = Inr [(''suspicious_score'', PFloat 0.85), (''action'', PStr ''HOLD_PAYMENT''),
            (''reasons'', PList [PStr ''invoice_missing_in_sap'', PStr ''non_standard_sender''])]
   \<and> (\<exists>r1. compute_score digits_parser ex_extraction
              (AList.update ''contradictions'' (PList [PStr ''amount_mismatch'']) ex_verification)
              ''billing@vendor.example'' = Inr r1
         \<and> 0.85 \<le> suspicious_score r1)
   \<and> compute_score digits_parser ex_extraction
        (AList.update ''invoice_exists'' (PBool True) ex_verification) ''billing@vendor.example''
     = Inr [(''suspicious_score'', PFloat 0.9), (''action'', PStr ''HOLD_PAYMENT''),
            (''reasons'', PList [PStr ''not_received_but_grn_exists'', PStr ''non_standard_sender''])]
   \<and> (\<exists>r1. compute_score digits_parser ex_extraction
              (AList.update ''invoice_exists'' (PBool False) ex_verification)
              ''billing@vendor.example'' = Inr r1
         \<and> 0.9 \<le> suspicious_score r1)
   \<and> endswith (str_lower ''ap@abcchem.com'') ''@abcchem.com''
   \<and> compute_score digits_parser ex_extraction
        (AList.update ''contradictions'' (PList []) ex_verification) ''ap@abcchem.com''
     = Inr [(''suspicious_score'', PFloat 0.7), (''action'', PStr ''REQUEST_DOCS''),
            (''reasons'', PList [PStr ''invoice_missing_in_sap''])]
   \<and> (\<exists>r1. compute_score digits_parser ex_extraction
              (AList.update ''contradictions'' (PList []) ex_verification)
              ''billing@vendor.example'' = Inr r1
         \<and> 0.7 \<le> suspicious_score r1)"
proof -
  note defs = compute_score_def confidence_of_def contradictions_bump_def
      invoice_missing_bump_def sender_bump_def action_of_def dict_get_def
      dict_get_default_def py_or_def py_round3_def round_half_even_def Let_def
      ex_extraction_def ex_verification_def endswith_def str_lower_def
      lower_c_def upper_letters_def lower_letters_def
  let ?V0 = "AList.update ''contradictions'' (PList []) ex_verification"
  have a: "compute_score digits_parser ex_extraction ?V0 ''billing@vendor.example''
     = Inr [(''suspicious_score'', PFloat 0.85), (''action'', PStr ''HOLD_PAYMENT''),
            (''reasons'', PList [PStr ''invoice_missing_in_sap'', PStr ''non_standard_sender''])]"
    by (simp add: defs)
  have b: "compute_score digits_parser ex_extraction
        (AList.update ''invoice_exists'' (PBool True) ex_verification) ''billing@vendor.example''
     = Inr [(''suspicious_score'', PFloat 0.9), (''action'', PStr ''HOLD_PAYMENT''),
            (''reasons'', PList [PStr ''not_received_but_grn_exists'', PStr ''non_standard_sender''])]"
    by (simp add: defs)
  have c1: "endswith (str_lower ''ap@abcchem.com'') ''@abcchem.com''"
    by (simp add: defs)
  have c2: "compute_score digits_parser ex_extraction ?V0 ''ap@abcchem.com''
     = Inr [(''suspicious_score'', PFloat 0.7), (''action'', PStr ''REQUEST_DOCS''),
            (''reasons'', PList [PStr ''invoice_missing_in_sap''])]"
    by (simp add: defs)
  have sc: "suspicious_score [(''suspicious_score'', PFloat x), (''action'', y), (''reasons'', z)] = x"
    for x y z by (rule suspicious_score_result)
  have A: "\<exists>r1. compute_score digits_parser ex_extraction
              (AList.update ''contradictions'' (PList [PStr ''amount_mismatch'']) ex_verification)
              ''billing@vendor.example'' = Inr r1
         \<and> 0.85 \<le> suspicious_score r1"
    using compute_score_monotone [where cs = "[PStr ''amount_mismatch'']",
        THEN conjunct1, THEN mp, OF a]
    by (simp add: sc)
  have B: "\<exists>r1. compute_score digits_parser ex_extraction
              (AList.update ''invoice_exists'' (PBool False) ex_verification)
              ''billing@vendor.example'' = Inr r1
         \<and> 0.9 \<le> suspicious_score r1"
    using compute_score_monotone [THEN conjunct2, THEN conjunct1, THEN mp, OF b]
    by (simp add: sc)
  have C: "\<exists>r1. compute_score digits_parser ex_extraction ?V0
              ''billing@vendor.example'' = Inr r1
         \<and> 0.7 \<le> suspicious_score r1"
    using compute_score_monotone [where s = "''billing@vendor.example''",
        THEN conjunct2, THEN conjunct2, THEN mp, OF conjI [OF c1 c2]]
    by (simp add: sc)
  from a A b B c1 c2 C show ?thesis by (intro conjI)
qed

text \<open>
  Claim C10. The trusted-sender test ignores letter case: a sender that differs from an
  address ending with \<open>@abcchem.com\<close> only in the case of its letters gets no increment and
  no \<open>non_standard_sender\<close> reason (the sender check leaves \<open>base\<close> and \<open>reasons\<close> as they
  are), nor does the empty sender, and \<open>compute_score\<close> returns for it what it returns for
  the empty sender.
\<close>

theorem trusted_sender_case_insensitive:
  assumes "str_lower sender = str_lower trusted" and "endswith trusted ''@abcchem.com''"
  shows "sender_bump sender st = st \<and> sender_bump [] st = st
       \<and> compute_score pf extraction verification sender = compute_score pf extraction verification []"
proof -
  have "endswith (str_lower trusted) (str_lower ''@abcchem.com'')"
    unfolding str_lower_def using assms(2) by (rule endswith_map)
  then have "endswith (str_lower sender) ''@abcchem.com''"
    by (simp add: assms(1) lower_suffix)
  then have a: "sender_bump sender st' = st'" for st'
    by (simp add: sender_bump_def)
  have b: "sender_bump [] st' = st'" for st'
    by (simp add: sender_bump_def)
  show ?thesis
    by (simp add: compute_score_def a b split: sum.splits)
qed

theorem trusted_sender_case_insensitive_witness:
  "str_lower ''Alice@ABCchem.COM'' = str_lower ''alice@abcchem.com''
   \<and> endswith ''alice@abcchem.com'' ''@abcchem.com''
   \<and> sender_bump ''Alice@ABCchem.COM'' (0.4, []) = (0.4, [])
   \<and> sender_bump [] (0.4, []) = (0.4, [])
   \<and> compute_score digits_parser ex_extraction ex_verification ''Alice@ABCchem.COM''
       = compute_score digits_parser ex_extraction ex_verification []"
proof -
  have h1: "str_lower ''Alice@ABCchem.COM'' = str_lower ''alice@abcchem.com''"
    by (simp add: str_lower_def lower_c_def upper_letters_def lower_letters_def)
  have h2: "endswith ''alice@abcchem.com'' ''@abcchem.com''"
    by (simp add: endswith_def)
  from trusted_sender_case_insensitive [OF h1 h2, of "(0.4, [])" digits_parser ex_extraction
      ex_verification] h1 h2
  show ?thesis by simp
qed

section \<open>Properties of the verifier\<close>

text \<open>
  Claim C6. When the record store cannot be reached (\<^verbatim>\<open>_connect()\<close> returns \<^verbatim>\<open>None\<close>),
  \<open>verify\<close> returns, for every extraction dictionary and without raising, the result with
  all three existence flags false, the id and amount fields null, no goods-receipt ids and no
  contradictions.
\<close>

theorem verify_offline:
  "verify pf None extraction =
     Inr [(''invoice_exists'', PBool False), (''invoice_id'', PNone), (''invoice_amount'', PNone),
          (''po_exists'', PBool False), (''po_id'', PNone), (''grn_exists'', PBool False),
          (''grn_ids'', PList []), (''contradictions'', PList [])]"
  by (simp add: verify_def verify_defaults_def)

lemma contradictions_of_append:
  "contradictions_of (append_contradiction t out) = contradictions_of out @ [PStr t]"
  by (simp add: append_contradiction_def contradictions_of_def dict_get_update)

lemma dict_get_append_contradiction:
  "dict_get (append_contradiction t out) k =
     (if k = ''contradictions'' then PList (contradictions_of out @ [PStr t]) else dict_get out k)"
  by (simp add: append_contradiction_def dict_get_update)

lemma dict_get_check_not_received:
  "k \<noteq> ''contradictions'' \<Longrightarrow> dict_get (check_not_received E out) k = dict_get out k"
  by (simp add: check_not_received_def dict_get_append_contradiction)

lemma dict_get_check_amount:
  "k \<noteq> ''contradictions'' \<Longrightarrow> dict_get (check_amount pf E out) k = dict_get out k"
  by (simp add: check_amount_def dict_get_append_contradiction split: sum.splits pyval.splits)

lemma contradictions_of_check_not_received:
  "contradictions_of (check_not_received E out) =
     contradictions_of out @
       (if dict_get E ''claim_type'' = PStr ''not_received'' \<and> truthy (dict_get out ''grn_exists'')
        then [PStr ''not_received_but_grn_exists''] else [])"
  by (simp add: check_not_received_def contradictions_of_append)

lemma contradictions_of_check_amount:
  "contradictions_of (check_amount pf E out) =
     contradictions_of out @
       (if truthy (dict_get E ''claimed_amount'')
           \<and> (\<exists>x a. py_float pf (dict_get E ''claimed_amount'') = Inr x
                  \<and> dict_get out ''invoice_amount'' = PFloat a \<and> a \<noteq> 0 \<and> 1 < \<bar>x - a\<bar>)
        then [PStr ''amount_mismatch''] else [])"
  by (auto simp: check_amount_def contradictions_of_append py_or_def
      split: sum.splits pyval.splits)

lemma contradictions_is_list_check:
  assumes "dict_get out ''contradictions'' = PList xs"
  shows "dict_get (check_amount pf E (check_not_received E out)) ''contradictions''
     = PList (contradictions_of (check_amount pf E (check_not_received E out)))"
  using assms
  by (auto simp: check_amount_def check_not_received_def dict_get_append_contradiction
      contradictions_of_def split: sum.splits pyval.splits)

lemma lookup_invoice_keeps:
  assumes "lookup_invoice cur ivn out = Inr out1"
    and "k \<notin> {''invoice_exists'', ''invoice_id'', ''invoice_amount'', ''invoice_status''}"
  shows "dict_get out1 k = dict_get out k"
  using assms by (auto simp: lookup_invoice_def dict_get_update split: if_splits sum.splits option.splits)

lemma lookup_po_keeps:
  assumes "lookup_po cur po out = Inr out1"
    and "k \<notin> {''po_exists'', ''po_id'', ''grn_exists'', ''grn_ids''}"
  shows "dict_get out1 k = dict_get out k"
  using assms by (auto simp: lookup_po_def dict_get_update Let_def split: if_splits sum.splits option.splits)

lemma lookup_invoice_errors:
  "lookup_invoice cur ivn out = Inl e \<Longrightarrow> select_invoice cur ivn = Inl e"
  by (auto simp: lookup_invoice_def split: if_splits sum.splits option.splits)

lemma lookup_po_errors:
  "lookup_po cur po out = Inl e \<Longrightarrow>
     select_purchase_order cur po = Inl e \<or> (\<exists>i. select_goods_receipt cur i = Inl e)"
  by (auto simp: lookup_po_def Let_def split: if_splits sum.splits option.splits)

lemma verify_online_InrD:
  assumes "verify pf (Some cur) E = Inr v"
  obtains out1 out2 where
    "lookup_invoice cur (dict_get E ''invoice_number'') verify_defaults = Inr out1"
    "lookup_po cur (dict_get E ''po_number'') out1 = Inr out2"
    "v = check_amount pf E (check_not_received E out2)"
  using assms by (auto simp: verify_def Let_def split: sum.splits)

lemma verify_defaults_contradictions:
  "dict_get verify_defaults ''contradictions'' = PList []"
  by (simp add: verify_defaults_def dict_get_def)

lemma verify_defaults_grn: "dict_get verify_defaults ''grn_exists'' = PBool False"
  by (simp add: verify_defaults_def dict_get_def)

lemma verify_contradictions_list:
  assumes "verify pf (Some cur) E = Inr v"
  shows "contradictions_of v =
         (if dict_get E ''claim_type'' = PStr ''not_received'' \<and> truthy (dict_get v ''grn_exists'')
          then [PStr ''not_received_but_grn_exists''] else [])
         @ (if truthy (dict_get E ''claimed_amount'')
               \<and> (\<exists>x a. py_float pf (dict_get E ''claimed_amount'') = Inr x
                      \<and> dict_get v ''invoice_amount'' = PFloat a \<and> a \<noteq> 0 \<and> 1 < \<bar>x - a\<bar>)
            then [PStr ''amount_mismatch''] else [])"
    and "dict_get v ''contradictions'' = PList (contradictions_of v)"
proof -
  from assms obtain out1 out2 where
    o1: "lookup_invoice cur (dict_get E ''invoice_number'') verify_defaults = Inr out1" and
    o2: "lookup_po cur (dict_get E ''po_number'') out1 = Inr out2" and
    v: "v = check_amount pf E (check_not_received E out2)"
    by (rule verify_online_InrD)
  have c2: "dict_get out2 ''contradictions'' = PList []"
    using lookup_po_keeps [OF o2, of "''contradictions''"]
      lookup_invoice_keeps [OF o1, of "''contradictions''"]
    by (simp add: verify_defaults_contradictions)
  then have cs2: "contradictions_of out2 = []"
    by (simp add: contradictions_of_def)
  have g: "dict_get v ''grn_exists'' = dict_get out2 ''grn_exists''"
    by (simp add: v dict_get_check_amount dict_get_check_not_received)
  have a: "dict_get v ''invoice_amount'' = dict_get (check_not_received E out2) ''invoice_amount''"
    by (simp add: v dict_get_check_amount)
  show "contradictions_of v =
         (if dict_get E ''claim_type'' = PStr ''not_received'' \<and> truthy (dict_get v ''grn_exists'')
          then [PStr ''not_received_but_grn_exists''] else [])
         @ (if truthy (dict_get E ''claimed_amount'')
               \<and> (\<exists>x a. py_float pf (dict_get E ''claimed_amount'') = Inr x
                      \<and> dict_get v ''invoice_amount'' = PFloat a \<and> a \<noteq> 0 \<and> 1 < \<bar>x - a\<bar>)
            then [PStr ''amount_mismatch''] else [])"
    unfolding g a unfolding v contradictions_of_check_amount contradictions_of_check_not_received cs2
    by simp
  show "dict_get v ''contradictions'' = PList (contradictions_of v)"
    unfolding v using c2 by (rule contradictions_is_list_check)
qed

text \<open>
  Claim C8, as amended. When the store is reachable and \<open>verify\<close> returns, the contradiction
  list is the tag \<open>not_received_but_grn_exists\<close> (present exactly when the claim type is
  \<open>not_received\<close> and goods receipts were found) followed by the tag \<open>amount_mismatch\<close>
  (present exactly when the claimed amount is truthy, that is neither null nor zero nor empty,
  converts to a number, the looked-up invoice amount is a non-zero number, and the two differ
  by more than 1.0). So the order is fixed and each tag occurs at most once. A failed
  conversion appends nothing and does not propagate: when \<open>verify\<close> raises, the exception is
  the one that a query of the store raised.
\<close>

theorem verify_contradictions:
  "(verify pf (Some cur) extraction = Inr v \<longrightarrow>
      contradictions_of v =
         (if dict_get extraction ''claim_type'' = PStr ''not_received''
             \<and> truthy (dict_get v ''grn_exists'')
          then [PStr ''not_received_but_grn_exists''] else [])
         @ (if truthy (dict_get extraction ''claimed_amount'')
               \<and> (\<exists>x a. py_float pf (dict_get extraction ''claimed_amount'') = Inr x
                      \<and> dict_get v ''invoice_amount'' = PFloat a \<and> a \<noteq> 0 \<and> 1 < \<bar>x - a\<bar>)
            then [PStr ''amount_mismatch''] else []))
   \<and> (verify pf (Some cur) extraction = Inl e \<longrightarrow>
        select_invoice cur (dict_get extraction ''invoice_number'') = Inl e
        \<or> select_purchase_order cur (dict_get extraction ''po_number'') = Inl e
        \<or> (\<exists>po_id. select_goods_receipt cur po_id = Inl e))"
proof (intro conjI impI)
  assume "verify pf (Some cur) extraction = Inr v"
  then show "contradictions_of v =
         (if dict_get extraction ''claim_type'' = PStr ''not_received''
             \<and> truthy (dict_get v ''grn_exists'')
          then [PStr ''not_received_but_grn_exists''] else [])
         @ (if truthy (dict_get extraction ''claimed_amount'')
               \<and> (\<exists>x a. py_float pf (dict_get extraction ''claimed_amount'') = Inr x
                      \<and> dict_get v ''invoice_amount'' = PFloat a \<and> a \<noteq> 0 \<and> 1 < \<bar>x - a\<bar>)
            then [PStr ''amount_mismatch''] else [])"
    by (rule verify_contradictions_list(1))
next
  assume "verify pf (Some cur) extraction = Inl e"
  then show "select_invoice cur (dict_get extraction ''invoice_number'') = Inl e
        \<or> select_purchase_order cur (dict_get extraction ''po_number'') = Inl e
        \<or> (\<exists>po_id. select_goods_receipt cur po_id = Inl e)"
    by (auto simp: verify_def Let_def split: sum.splits
        dest: lookup_invoice_errors lookup_po_errors)
qed

theorem verify_contradictions_witness:
  "verify digits_parser (Some audit_store) ex_extraction = Inr ex_audit_result
   \<and> contradictions_of ex_audit_result
       = [PStr ''not_received_but_grn_exists'', PStr ''amount_mismatch'']
   \<and> verify digits_parser (Some failing_store) ex_extraction
       = Inl (DatabaseError ''server closed the connection'')
   \<and> select_invoice failing_store (dict_get ex_extraction ''invoice_number'')
       = Inl (DatabaseError ''server closed the connection'')"
proof -
  have h1: "verify digits_parser (Some audit_store) ex_extraction = Inr ex_audit_result"
    by (simp add: verify_def verify_defaults_def lookup_invoice_def lookup_po_def check_amount_def
      check_not_received_def dict_get_def audit_store_def Let_def ex_extraction_def
      append_contradiction_def contradictions_of_def ex_audit_result_def py_or_def)
  have h2: "verify digits_parser (Some failing_store) ex_extraction
       = Inl (DatabaseError ''server closed the connection'')"
    by (simp add: verify_def verify_defaults_def lookup_invoice_def dict_get_def
        failing_store_def Let_def ex_extraction_def)
  have c1: "contradictions_of ex_audit_result
       = [PStr ''not_received_but_grn_exists'', PStr ''amount_mismatch'']"
    using verify_contradictions [THEN conjunct1, THEN mp, OF h1]
    by (simp add: ex_extraction_def ex_audit_result_def dict_get_def)
  have c2: "select_invoice failing_store (dict_get ex_extraction ''invoice_number'')
       = Inl (DatabaseError ''server closed the connection'')"
    using verify_contradictions [THEN conjunct2, THEN mp, OF h2]
    by (simp add: failing_store_def)
  from h1 c1 h2 c2 show ?thesis by (intro conjI)
qed

text \<open>
  The claim as stated fails when an amount is present and zero: the invoice is found with the
  amount 0, the claimed amount is 500, the two differ by more than 1.0, and no tag is appended.
\<close>

theorem amount_mismatch_zero_counterexample:
  "verify digits_parser (Some zero_amount_store)
     [(''invoice_number'', PStr ''INV-4521''), (''claimed_amount'', PFloat 500)]
   = Inr [(''invoice_exists'', PBool True), (''invoice_id'', PInt 1), (''invoice_amount'', PFloat 0),
          (''po_exists'', PBool False), (''po_id'', PNone), (''grn_exists'', PBool False),
          (''grn_ids'', PList []), (''contradictions'', PList []), (''invoice_status'', PStr ''OPEN'')]
   \<and> (1::real) < \<bar>500 - 0\<bar>"
  by (simp add: verify_def verify_defaults_def lookup_invoice_def lookup_po_def check_amount_def
      check_not_received_def dict_get_def zero_amount_store_def Let_def)

text \<open>
  Claim C7, as amended. For an extraction with claim type \<open>not_received\<close> whose verification
  found goods receipts, the contradiction list contains \<open>not_received_but_grn_exists\<close>; and,
  when the confidence converts to a number \<open>c\<close> (0.5 standing in for a missing, null or zero
  confidence), \<open>compute_score\<close> returns from that pair the rounding to three decimals of
  \<open>max 0 (min 1 base)\<close> for a \<open>base\<close> of at least \<open>1 - c + 0.35\<close>. The returned score is
  therefore at least \<open>min 1 (1 - c + 0.35) - 0.0005\<close>: the bound of the claim, clamped at 1,
  up to the rounding.
\<close>

theorem not_received_contradiction_scored:
  assumes ct: "dict_get extraction ''claim_type'' = PStr ''not_received''"
    and ver: "verify pf conn extraction = Inr v"
    and grn: "truthy (dict_get v ''grn_exists'')"
    and conf: "confidence_of pf extraction = Inr c"
  shows "PStr ''not_received_but_grn_exists'' \<in> set (contradictions_of v)
       \<and> (\<exists>r base. compute_score pf extraction v sender = Inr r
            \<and> 1 - c + 0.35 \<le> base
            \<and> suspicious_score r = py_round3 (max 0 (min 1 base))
            \<and> min 1 (1 - c + 0.35) - 0.0005 \<le> suspicious_score r)"
proof -
  obtain cur where conn: "conn = Some cur"
    using ver grn by (cases conn) (auto simp: verify_def verify_defaults_def dict_get_def)
  note ver' = ver [unfolded conn]
  obtain rest where cs: "contradictions_of v = PStr ''not_received_but_grn_exists'' # rest"
    using verify_contradictions_list(1) [OF ver'] ct grn by simp
  have isl: "dict_get v ''contradictions'' = PList (PStr ''not_received_but_grn_exists'' # rest)"
    using verify_contradictions_list(2) [OF ver'] cs by simp
  define st1 where "st1 = (1 - c + 0.35, PStr ''not_received_but_grn_exists'' # rest)"
  have st1: "contradictions_bump v (1 - c, []) = Inr st1"
    using contradictions_bump_list [OF isl, of "(1 - c, [])"] by (simp add: st1_def)
  define base where "base = fst (sender_bump sender (invoice_missing_bump extraction v st1))"
  have le: "1 - c + 0.35 \<le> base"
    unfolding base_def fst_sender_bump fst_invoice_missing_bump by (simp add: st1_def)
  have near: "\<bar>py_round3 (max 0 (min 1 base)) - max 0 (min 1 base)\<bar> \<le> 1/2000"
    by (rule py_round3_near)
  have "min 1 (1 - c + 0.35) \<le> max 0 (min 1 base)"
    using le by linarith
  with near have low: "min 1 (1 - c + 0.35) - 1/2000 \<le> py_round3 (max 0 (min 1 base))"
    by linarith
  have "compute_score pf extraction v sender =
     Inr [(''suspicious_score'', PFloat (py_round3 (max 0 (min 1 base)))),
          (''action'', PStr (action_of (max 0 (min 1 base)))),
          (''reasons'', PList (snd (sender_bump sender (invoice_missing_bump extraction v st1))))]"
    unfolding base_def by (rule compute_score_eq [OF conf st1])
  then have "\<exists>r base. compute_score pf extraction v sender = Inr r
            \<and> 1 - c + 0.35 \<le> base
            \<and> suspicious_score r = py_round3 (max 0 (min 1 base))
            \<and> min 1 (1 - c + 0.35) - 0.0005 \<le> suspicious_score r"
    using le low by (auto simp: suspicious_score_result intro!: exI [of _ base])
  then show ?thesis using cs by simp
qed

theorem not_received_contradiction_scored_witness:
  "dict_get ex_extraction ''claim_type'' = PStr ''not_received''
   \<and> verify digits_parser (Some audit_store) ex_extraction = Inr ex_audit_result
   \<and> truthy (dict_get ex_audit_result ''grn_exists'')
   \<and> confidence_of digits_parser ex_extraction = Inr 0.6
   \<and> PStr ''not_received_but_grn_exists'' \<in> set (contradictions_of ex_audit_result)
   \<and> (\<exists>r base. compute_score digits_parser ex_extraction ex_audit_result ''billing@vendor.example'' = Inr r
            \<and> 1 - 0.6 + 0.35 \<le> base
            \<and> suspicious_score r = py_round3 (max 0 (min 1 base))
            \<and> min 1 (1 - 0.6 + 0.35) - 0.0005 \<le> suspicious_score r)"
proof -
  have h1: "dict_get ex_extraction ''claim_type'' = PStr ''not_received''"
    by (simp add: ex_extraction_def dict_get_def)
  have h2: "verify digits_parser (Some audit_store) ex_extraction = Inr ex_audit_result"
    by (simp add: verify_def verify_defaults_def lookup_invoice_def lookup_po_def check_amount_def
      check_not_received_def dict_get_def audit_store_def Let_def ex_extraction_def
      append_contradiction_def contradictions_of_def ex_audit_result_def py_or_def)
  have h3: "truthy (dict_get ex_audit_result ''grn_exists'')"
    by (simp add: ex_audit_result_def dict_get_def)
  have h4: "confidence_of digits_parser ex_extraction = Inr 0.6"
    by (simp add: confidence_of_def ex_extraction_def dict_get_default_def py_or_def)
  from not_received_contradiction_scored [OF h1 h2 h3 h4, of "''billing@vendor.example''"]
  show ?thesis using h1 h2 h3 h4 by (intro conjI) simp_all
qed

text \<open>
  The claim as stated fails when the bound exceeds 1: with confidence 0.2 the base is 1.15 and
  the returned score is the clamped 1.0.
\<close>

theorem not_received_score_clamped_counterexample:
  "dict_get low_confidence_claim ''claim_type'' = PStr ''not_received''
   \<and> verify digits_parser (Some grn_store) low_confidence_claim
     = Inr [(''invoice_exists'', PBool False), (''invoice_id'', PNone), (''invoice_amount'', PNone),
          (''po_exists'', PBool True), (''po_id'', PInt 7), (''grn_exists'', PBool True),
          (''grn_ids'', PList [PInt 11, PInt 12]),
          (''contradictions'', PList [PStr ''not_received_but_grn_exists''])]
   \<and> compute_score digits_parser low_confidence_claim
        [(''invoice_exists'', PBool False), (''invoice_id'', PNone), (''invoice_amount'', PNone),
          (''po_exists'', PBool True), (''po_id'', PInt 7), (''grn_exists'', PBool True),
          (''grn_ids'', PList [PInt 11, PInt 12]),
          (''contradictions'', PList [PStr ''not_received_but_grn_exists''])] ''ap@abcchem.com''
     = Inr [(''suspicious_score'', PFloat 1), (''action'', PStr ''HOLD_PAYMENT''),
            (''reasons'', PList [PStr ''not_received_but_grn_exists''])]
   \<and> (1::real) < 1 - 0.2 + 0.35"
  by (simp add: verify_def verify_defaults_def lookup_invoice_def lookup_po_def check_amount_def
      check_not_received_def dict_get_def grn_store_def Let_def low_confidence_claim_def
      append_contradiction_def contradictions_of_def
      compute_score_def confidence_of_def contradictions_bump_def
      invoice_missing_bump_def sender_bump_def action_of_def
      dict_get_default_def py_or_def py_round3_def round_half_even_def
      endswith_def str_lower_def lower_c_def upper_letters_def lower_letters_def)

section \<open>Properties of the pattern extractor\<close>

subsection \<open>Character classes\<close>

















subsection \<open>What the two patterns match\<close>













subsection \<open>The leftmost match\<close>












subsection \<open>The text returned for a match\<close>




















section \<open>Properties of the normalizer\<close>

lemma regex_result_no_meta:
  "map_of (AList.update ''issue_summary'' v (regex_result pf txt)) ''_meta'' = None"
  by (simp add: regex_result_def Let_def update_conv')

lemma set_extracted_at_no_meta:
  "map_of d ''_meta'' = None \<Longrightarrow> set_extracted_at t d = d"
  by (simp add: set_extracted_at_def)

lemma set_extracted_at_meta:
  "set_extracted_at t2 (AList.update ''_meta'' (PDict [(''extracted_at'', PStr t1), (''used_llm'', b)]) d)
     = AList.update ''_meta'' (PDict [(''extracted_at'', PStr t2), (''used_llm'', b)]) d"
  by (simp add: set_extracted_at_def update_conv')

lemma finish_result_time:
  "finish_result pf result llm_out u t2 = map_sum id (set_extracted_at t2) (finish_result pf result llm_out u t1)"
proof -
  define F where "F r1 =
     (let r2 = AList.update ''invoice_amount'' (coerce_amount pf (dict_get r1 ''invoice_amount'')) r1;
          r3 = AList.update ''po_amount'' (coerce_amount pf (dict_get r2 ''po_amount'')) r2
      in (if \<not> truthy (dict_get r3 ''issue_summary'')
          then AList.update ''issue_summary'' (PStr ''Merged regex + LLM extraction'') r3
          else r3))" for r1
  have f: "finish_result pf result llm_out u t =
      (case merge_llm merge_keys llm_out result of
         Inl e \<Rightarrow> Inl e
       | Inr r1 \<Rightarrow> Inr (AList.update ''_meta''
                     (PDict [(''extracted_at'', PStr t), (''used_llm'', PBool u)]) (F r1)))" for t
    unfolding finish_result_def F_def Let_def ..
  show ?thesis
  proof (cases "merge_llm merge_keys llm_out result")
    case (Inl e)
    then show ?thesis by (simp only: f sum.case map_sum.simps id_apply)
  next
    case (Inr r1)
    then show ?thesis by (simp only: f sum.case map_sum.simps set_extracted_at_meta)
  qed
qed

lemma fetch_llm_out_hit:
  "map_of cache key = Some cached \<Longrightarrow>
   fetch_llm_out svc subject body llm_model cache_file cache key w = (Inr (cached, cache), w)"
  by (simp add: fetch_llm_out_def)

lemma extract_structured_warm:
  assumes "cache_path = Some p" and "p \<noteq> []"
    and "map_of (load_cache w p) (make_key svc subject body) = Some cached"
  shows "extract_structured pf svc subject body use_llm llm_model cache_path now w =
     (let result = regex_result pf (subject @ [LF] @ body);
          invoice = dict_get result ''invoice_number'';
          po = dict_get result ''po_number''
      in if truthy invoice \<and> truthy po
         then Inr (AList.update ''issue_summary''
                      (PStr (''Extracted invoice '' @ str_of invoice @ '' and PO '' @ str_of po
                             @ '' via regex'')) result)
         else if \<not> use_llm
         then Inr (AList.update ''issue_summary'' (PStr ''Incomplete via regex; LLM disabled'')
                      result)
         else finish_result pf result cached False now, w)"
  using assms by (simp add: extract_structured_def Let_def fetch_llm_out_hit)

text \<open>
  Claim C4, as amended. With a cache file in use and an entry for the content key in it, a
  call of \<open>extract_structured\<close> leaves the state as it is, and a second call with the same
  arguments returns the result of the first with the time stamp \<open>extracted_at\<close> of \<open>_meta\<close>
  replaced by the time of the second call (a result without \<open>_meta\<close>, or an exception, is
  returned again as it is). The two results are identical when the clock reads the same.
\<close>

theorem warm_cache_idempotent:
  assumes "cache_path = Some p" and "p \<noteq> []"
    and "map_of (load_cache w p) (make_key svc subject body) = Some cached"
  shows "(let (r1, w1) = extract_structured pf svc subject body use_llm llm_model cache_path now1 w;
              (r2, w2) = extract_structured pf svc subject body use_llm llm_model cache_path now2 w1
          in w1 = w \<and> w2 = w \<and> r2 = map_sum id (set_extracted_at now2) r1
             \<and> (now1 = now2 \<longrightarrow> r2 = r1))"
proof -
  define result where "result = regex_result pf (subject @ [LF] @ body)"
  define A where "A \<longleftrightarrow> truthy (dict_get result ''invoice_number'') \<and> truthy (dict_get result ''po_number'')"
  define B where "B = AList.update ''issue_summary''
                      (PStr (''Extracted invoice '' @ str_of (dict_get result ''invoice_number'')
                             @ '' and PO '' @ str_of (dict_get result ''po_number'')
                             @ '' via regex'')) result"
  define C where "C = AList.update ''issue_summary'' (PStr ''Incomplete via regex; LLM disabled'')
                      result"
  define X where "X now = (if A then Inr B else if \<not> use_llm then Inr C
                           else finish_result pf result cached False now)" for now
  have es: "extract_structured pf svc subject body use_llm llm_model cache_path now w = (X now, w)"
    for now
    unfolding extract_structured_warm [OF assms] X_def A_def B_def C_def result_def Let_def ..
  have nm: "set_extracted_at now2 B = B" "set_extracted_at now2 C = C"
    unfolding B_def C_def result_def
    by (rule set_extracted_at_no_meta, rule regex_result_no_meta)+
  have X2: "X now2 = map_sum id (set_extracted_at now2) (X now1)"
  proof (cases A)
    case True
    then show ?thesis by (simp add: X_def nm)
  next
    case False
    show ?thesis
    proof (cases use_llm)
      case True
      with False show ?thesis
        by (simp only: X_def if_False not_True_eq_False) (rule finish_result_time)
    next
      case False
      with \<open>\<not> A\<close> show ?thesis by (simp add: X_def nm)
    qed
  qed
  show ?thesis
    by (simp only: es prod.case Let_def) (simp add: X2 [symmetric])
qed

theorem warm_cache_idempotent_witness:
  "fst (extract_structured digits_parser offline_services ''Claim'' ''Goods not received'' True
          ''gpt-4o'' (Some CACHE_PATH) ''2024-05-01T10:00:01'' warm_world)
     = map_sum id (set_extracted_at ''2024-05-01T10:00:01'')
         (fst (extract_structured digits_parser offline_services ''Claim'' ''Goods not received''
                 True ''gpt-4o'' (Some CACHE_PATH) ''2024-05-01T10:00:00'' warm_world))
   \<and> snd (extract_structured digits_parser offline_services ''Claim'' ''Goods not received'' True
          ''gpt-4o'' (Some CACHE_PATH) ''2024-05-01T10:00:00'' warm_world) = warm_world"
proof -
  have h2: "CACHE_PATH \<noteq> []"
    by (simp add: CACHE_PATH_def)
  have h3: "map_of (load_cache warm_world CACHE_PATH)
              (make_key offline_services ''Claim'' ''Goods not received'')
      = Some (PDict [(''po_number'', PStr ''4500999''),
                     (''issue_summary'', PStr ''Goods not received'')])"
    by (simp add: load_cache_def warm_world_def make_key_def offline_services_def)
  note t = warm_cache_idempotent [OF refl h2 h3, of digits_parser True "''gpt-4o''"
      "''2024-05-01T10:00:00''" "''2024-05-01T10:00:01''", unfolded Let_def case_prod_beta]
  note a = t [THEN conjunct1]
  note b = t [THEN conjunct2, THEN conjunct2, THEN conjunct1, unfolded a]
  from b a show ?thesis by (rule conjI)
qed

text \<open>
  The claim as stated fails on the time stamp: two calls on a warm cache, one second apart,
  return dictionaries that differ in \<open>_meta\<close>.
\<close>

theorem warm_cache_timestamp_counterexample:
  "fst (extract_structured digits_parser offline_services ''Claim'' ''Goods not received'' True
          ''gpt-4o'' (Some CACHE_PATH) ''2024-05-01T10:00:00'' warm_world)
     = Inr (warm_result ''2024-05-01T10:00:00'')
   \<and> fst (extract_structured digits_parser offline_services ''Claim'' ''Goods not received'' True
          ''gpt-4o'' (Some CACHE_PATH) ''2024-05-01T10:00:01''
          (snd (extract_structured digits_parser offline_services ''Claim'' ''Goods not received''
                  True ''gpt-4o'' (Some CACHE_PATH) ''2024-05-01T10:00:00'' warm_world)))
     = Inr (warm_result ''2024-05-01T10:00:01'')
   \<and> warm_result ''2024-05-01T10:00:00'' \<noteq> warm_result ''2024-05-01T10:00:01''"
  by code_simp

lemma call_llm_shape:
  "call_llm_system_user svc a b m w
     = (fst (call_llm_system_user svc a b m w), w\<lparr>llm_calls := Suc (llm_calls w)\<rparr>)"
  by (simp add: call_llm_system_user_def Let_def)

lemma fetch_llm_out_miss:
  assumes "map_of cache key = None"
  shows "fetch_llm_out svc subject body llm_model cache_file cache key w =
     (case fst (call_llm_system_user svc SYSTEM_PROMPT (user_prompt subject body) llm_model w) of
        Inl e \<Rightarrow> (Inl e, w\<lparr>llm_calls := Suc (llm_calls w)\<rparr>)
      | Inr raw \<Rightarrow>
          (case parse_llm_output svc raw of
             Inl e \<Rightarrow> (Inl e, w\<lparr>llm_calls := Suc (llm_calls w)\<rparr>)
           | Inr llm_out \<Rightarrow>
               (case cache_file of
                  None \<Rightarrow> (Inr (llm_out, cache), w\<lparr>llm_calls := Suc (llm_calls w)\<rparr>)
                | Some path \<Rightarrow>
                    (Inr (llm_out, AList.update key llm_out cache),
                     save_cache path (AList.update key llm_out cache)
                       (w\<lparr>llm_calls := Suc (llm_calls w)\<rparr>)))))"
  unfolding fetch_llm_out_def
  by (subst call_llm_shape) (simp add: assms Let_def split: sum.splits option.splits)

text \<open>
  Claim C5, as amended. One call of \<open>extract_structured\<close> calls the provider at most once,
  and exactly when the regex pass did not find both an invoice number and a PO number, the
  flag \<open>use_llm_if_missing\<close> is set, and the cache (empty when no cache path is given) has no
  entry for the content key. Otherwise the cache files are left as they are. When the provider
  is called and the call raises, or its output has no JSON object or one that does not parse,
  that exception is the result and nothing is written; when the output parses, the parsed
  object is what the merge works on, and it is stored under the content key in the cache file
  before the function returns, provided a cache path was given.
\<close>

theorem provider_consulted_once:
  "(let result = regex_result pf (subject @ [LF] @ body);
        complete = (truthy (dict_get result ''invoice_number'')
                    \<and> truthy (dict_get result ''po_number''));
        cache_file = (case cache_path of None \<Rightarrow> None
                      | Some p \<Rightarrow> if p = [] then None else Some p);
        cache = (case cache_file of None \<Rightarrow> [] | Some p \<Rightarrow> load_cache w p);
        key = make_key svc subject body;
        consulted = (\<not> complete \<and> use_llm \<and> map_of cache key = None);
        out = extract_structured pf svc subject body use_llm llm_model cache_path now w
    in llm_calls (snd out) = llm_calls w + (if consulted then 1 else 0)
       \<and> (\<not> consulted \<longrightarrow> cache_files (snd out) = cache_files w)
       \<and> (consulted \<longrightarrow>
            (case fst (call_llm_system_user svc SYSTEM_PROMPT (user_prompt subject body)
                         llm_model w) of
               Inl e \<Rightarrow> fst out = Inl e \<and> cache_files (snd out) = cache_files w
             | Inr raw \<Rightarrow>
                 (case parse_llm_output svc raw of
                    Inl e \<Rightarrow> fst out = Inl e \<and> cache_files (snd out) = cache_files w
                  | Inr llm_out \<Rightarrow>
                      fst out = finish_result pf result llm_out (cache_file = None) now
                      \<and> cache_files (snd out)
                          = (case cache_file of
                               None \<Rightarrow> cache_files w
                             | Some p \<Rightarrow>
                                 (cache_files w)(p := Some (AList.update key llm_out cache)))))))"
proof -
  define result where "result = regex_result pf (subject @ [LF] @ body)"
  define complete where "complete \<longleftrightarrow> truthy (dict_get result ''invoice_number'')
                    \<and> truthy (dict_get result ''po_number'')"
  define cache_file where "cache_file = (case cache_path of None \<Rightarrow> None
                      | Some p \<Rightarrow> if p = [] then None else Some p)"
  define cache where "cache = (case cache_file of None \<Rightarrow> [] | Some p \<Rightarrow> load_cache w p)"
  define key where "key = make_key svc subject body"
  define out where "out = extract_structured pf svc subject body use_llm llm_model cache_path now w"
  define w1 where "w1 = w\<lparr>llm_calls := Suc (llm_calls w)\<rparr>"
  have out: "out =
     (if complete
      then (Inr (AList.update ''issue_summary''
                      (PStr (''Extracted invoice '' @ str_of (dict_get result ''invoice_number'')
                             @ '' and PO '' @ str_of (dict_get result ''po_number'')
                             @ '' via regex'')) result), w)
      else if \<not> use_llm
      then (Inr (AList.update ''issue_summary'' (PStr ''Incomplete via regex; LLM disabled'')
                      result), w)
      else (case fetch_llm_out svc subject body llm_model cache_file cache key w of
              (Inl e, w1) \<Rightarrow> (Inl e, w1)
            | (Inr (llm_out, cache1), w1) \<Rightarrow>
                (finish_result pf result llm_out
                   (case cache_file of None \<Rightarrow> True | Some p \<Rightarrow> map_of cache1 key = None)
                   now, w1)))"
    unfolding out_def extract_structured_def result_def complete_def cache_file_def cache_def
      key_def Let_def ..
  have goal: "llm_calls (snd out) = llm_calls w
          + (if \<not> complete \<and> use_llm \<and> map_of cache key = None then 1 else 0)
       \<and> (\<not> (\<not> complete \<and> use_llm \<and> map_of cache key = None)
            \<longrightarrow> cache_files (snd out) = cache_files w)
       \<and> (\<not> complete \<and> use_llm \<and> map_of cache key = None \<longrightarrow>
            (case fst (call_llm_system_user svc SYSTEM_PROMPT (user_prompt subject body)
                         llm_model w) of
               Inl e \<Rightarrow> fst out = Inl e \<and> cache_files (snd out) = cache_files w
             | Inr raw \<Rightarrow>
                 (case parse_llm_output svc raw of
                    Inl e \<Rightarrow> fst out = Inl e \<and> cache_files (snd out) = cache_files w
                  | Inr llm_out \<Rightarrow>
                      fst out = finish_result pf result llm_out (cache_file = None) now
                      \<and> cache_files (snd out)
                          = (case cache_file of
                               None \<Rightarrow> cache_files w
                             | Some p \<Rightarrow>
                                 (cache_files w)(p := Some (AList.update key llm_out cache))))))"
  proof (cases "complete \<or> \<not> use_llm")
    case True
    then show ?thesis by (auto simp: out)
  next
    case False
    then have nc: "\<not> complete" and ul: use_llm by auto
    show ?thesis
    proof (cases "map_of cache key")
      case (Some cached)
      then show ?thesis
        using nc ul by (simp add: out fetch_llm_out_hit)
    next
      case None
      show ?thesis
        using nc ul None
        by (simp add: out fetch_llm_out_miss [OF None] save_cache_def update_conv'
            split: sum.splits option.splits)
    qed
  qed
  show ?thesis
    unfolding Let_def
    by (rule goal [unfolded out_def result_def complete_def cache_file_def cache_def key_def])
qed

theorem provider_consulted_once_witness:
  "llm_calls (snd (extract_structured digits_parser offline_services ''Claim''
                     ''Goods not received'' True ''gpt-4o'' (Some CACHE_PATH)
                     ''2024-05-01T10:00:00'' empty_world)) = 1
   \<and> fst (extract_structured digits_parser offline_services ''Claim'' ''Goods not received''
            True ''gpt-4o'' (Some CACHE_PATH) ''2024-05-01T10:00:00'' empty_world)
       = Inl (OpenAIError ''Connection error.'')
   \<and> cache_files (snd (extract_structured digits_parser offline_services ''Claim''
                     ''Goods not received'' True ''gpt-4o'' (Some CACHE_PATH)
                     ''2024-05-01T10:00:00'' empty_world)) = cache_files empty_world"
proof -
  have r: "regex_result digits_parser (''Claim'' @ [LF] @ ''Goods not received'')
      = [(''invoice_number'', PNone), (''po_number'', PNone), (''invoice_amount'', PNone),
         (''po_amount'', PNone), (''supplier_name'', PNone), (''issue_summary'', PStr [])]"
    by code_simp
  have c: "fst (call_llm_system_user offline_services SYSTEM_PROMPT
                  (user_prompt ''Claim'' ''Goods not received'') ''gpt-4o'' empty_world)
      = Inl (OpenAIError ''Connection error.'')"
    by (simp add: call_llm_system_user_def offline_services_def Let_def)
  have k: "load_cache empty_world CACHE_PATH = []"
    by (simp add: load_cache_def empty_world_def)
  have h2: "CACHE_PATH \<noteq> []"
    by (simp add: CACHE_PATH_def)
  note t = provider_consulted_once [where pf = digits_parser and subject = "''Claim''"
      and body = "''Goods not received''" and cache_path = "Some CACHE_PATH"
      and w = empty_world and svc = offline_services and use_llm = True
      and llm_model = "''gpt-4o''" and now = "''2024-05-01T10:00:00''", unfolded Let_def r c k]
  have z: "llm_calls empty_world = 0"
    by (simp add: empty_world_def)
  from t h2 show ?thesis
    by (simp add: dict_get_def k z)
qed

text \<open>
  The claim as stated fails in two ways: with \<open>use_llm_if_missing\<close> false the provider is
  not called although the regex pass is incomplete and the cache has no entry; and with no
  cache path (the default) a successful call of the provider is not followed by a write.
\<close>

theorem provider_not_consulted_counterexample:
  "dict_get (regex_result digits_parser (''Claim'' @ [LF] @ ''Goods not received''))
       ''invoice_number'' = PNone
   \<and> map_of (load_cache empty_world CACHE_PATH)
        (make_key answering_services ''Claim'' ''Goods not received'') = None
   \<and> llm_calls (snd (extract_structured digits_parser answering_services ''Claim''
                     ''Goods not received'' False ''gpt-4o'' (Some CACHE_PATH)
                     ''2024-05-01T10:00:00'' empty_world)) = 0
   \<and> llm_calls (snd (extract_structured digits_parser answering_services ''Claim''
                     ''Goods not received'' True ''gpt-4o'' None
                     ''2024-05-01T10:00:00'' empty_world)) = 1
   \<and> cache_files (snd (extract_structured digits_parser answering_services ''Claim''
                     ''Goods not received'' True ''gpt-4o'' None
                     ''2024-05-01T10:00:00'' empty_world)) CACHE_PATH = None"
  by code_simp

section \<open>Properties of the batch loops\<close>

lemma run_extraction_loop_append:
  "run_extraction_loop pf svc u m clock i (xs @ ys) w written =
     (case run_extraction_loop pf svc u m clock i xs w written of
        (None, w1, written1) \<Rightarrow> run_extraction_loop pf svc u m clock (i + length xs) ys w1 written1
      | (Some err, w1, written1) \<Rightarrow> (Some err, w1, written1))"
proof (induction xs arbitrary: i w written)
  case Nil
  then show ?case by simp
next
  case (Cons x xs)
  show ?case
  proof (cases "extract_structured pf svc (em_subject x) (em_body x) u m (Some CACHE_PATH) (clock i) w")
    case (Pair r w')
    then show ?thesis
      by (cases r) (simp_all add: Cons.IH split: prod.splits option.splits)
  qed
qed

lemma run_extraction_loop_length:
  "run_extraction_loop pf svc u m clock i xs w written = (None, w1, written1)
   \<Longrightarrow> length written1 = length written + length xs"
proof (induction xs arbitrary: i w written)
  case Nil
  then show ?case by simp
next
  case (Cons x xs)
  show ?case
  proof (cases "extract_structured pf svc (em_subject x) (em_body x) u m (Some CACHE_PATH) (clock i) w")
    case (Pair r w')
    with Cons.prems show ?thesis
      by (cases r) (auto dest: Cons.IH)
  qed
qed

lemma process_loop_append:
  "process_loop pf svc conn (xs @ ys) summaries =
     (case process_loop pf svc conn xs summaries of
        Inl e \<Rightarrow> Inl e
      | Inr summaries1 \<Rightarrow> process_loop pf svc conn ys summaries1)"
proof (induction xs arbitrary: summaries)
  case Nil
  then show ?case by simp
next
  case (Cons x xs)
  then show ?case
    by (cases "process_email pf svc conn x") simp_all
qed

lemma process_loop_length:
  "process_loop pf svc conn xs summaries = Inr bundles
   \<Longrightarrow> length bundles = length summaries + length xs"
proof (induction xs arbitrary: summaries)
  case Nil
  then show ?case by simp
next
  case (Cons x xs)
  then show ?case
    by (cases "process_email pf svc conn x") auto
qed

lemma py_float_errors: "py_float pf v = Inl e \<Longrightarrow> e = TypeError \<or> e = ValueError"
  by (cases v) (auto split: option.splits)

lemma regex_extract_errors: "regex_extract pf body = Inl e \<Longrightarrow> e = ValueError"
  by (simp add: regex_extract_def Let_def split: option.splits sum.splits)

lemma regex_fallback_errors: "regex_fallback pf body = Inl e \<Longrightarrow> e = ValueError"
  using regex_extract_errors [of pf body e]
  by (simp add: regex_fallback_def split: sum.splits)

lemma extractor_extract_errors:
  assumes "extractor_extract pf svc email = Inl e"
  shows "e = TypeError \<or> e = ValueError"
proof (cases "py_or (dict_get_default email ''body'' (PStr [])) (PStr [])")
  case (PStr body)
  show ?thesis
  proof (cases "call_openai pf svc body")
    case None
    with assms PStr show ?thesis
      by (simp add: extractor_extract_def regex_fallback_errors)
  next
    case (Some llm_result)
    show ?thesis
    proof (cases "llm_result = []")
      case True
      with assms PStr Some show ?thesis
        by (simp add: extractor_extract_def regex_fallback_errors)
    next
      case False
      with assms PStr Some show ?thesis
        by (auto simp: extractor_extract_def split: sum.splits dest: py_float_errors)
    qed
  qed
qed (use assms in \<open>simp_all add: extractor_extract_def\<close>)

text \<open>
  Claim C2, as amended. Neither batch loop isolates an email. In \<open>run_extraction\<close>, when the
  emails before \<open>e\<close> are processed and \<open>extract_structured\<close> raises for \<open>e\<close> (the provider
  failed), the run ends with that exception: the records of the emails before \<open>e\<close> have been
  written, and no later email is processed, whatever it is. In \<open>process_all\<close>, an exception of
  any stage for one line ends the run with that exception and no bundle is returned. The
  extractor that \<open>process_all\<close> calls never raises the provider's exception: it catches it
  and falls back to the regex extraction.
\<close>

theorem batch_aborts_at_first_error:
  "(run_extraction_loop pf svc use_llm llm_model clock 0 before w [] = (None, w1, written)
      \<and> extract_structured pf svc (em_subject e) (em_body e) use_llm llm_model
            (Some CACHE_PATH) (clock (length before)) w1 = (Inl err, w2)
     \<longrightarrow> run_extraction pf svc use_llm llm_model clock (before @ e # rest) w
            = (Some err, w2, written)
        \<and> length written = length before)
   \<and> (process_loop pf svc conn lines [] = Inr bundles
        \<and> process_email pf svc conn line = Inl err
     \<longrightarrow> process_all pf svc conn (lines @ line # later) = Inl err)
   \<and> extractor_extract pf svc line \<noteq> Inl (OpenAIError msg)
   \<and> extractor_extract pf svc line \<noteq> Inl (RuntimeError msg)"
proof (intro conjI impI)
  assume a: "run_extraction_loop pf svc use_llm llm_model clock 0 before w [] = (None, w1, written)
      \<and> extract_structured pf svc (em_subject e) (em_body e) use_llm llm_model
            (Some CACHE_PATH) (clock (length before)) w1 = (Inl err, w2)"
  then show "run_extraction pf svc use_llm llm_model clock (before @ e # rest) w
            = (Some err, w2, written)"
    by (simp add: run_extraction_def run_extraction_loop_append)
  from a show "length written = length before"
    using run_extraction_loop_length [of pf svc use_llm llm_model clock 0 before w "[]" w1 written]
    by simp
next
  assume "process_loop pf svc conn lines [] = Inr bundles
        \<and> process_email pf svc conn line = Inl err"
  then show "process_all pf svc conn (lines @ line # later) = Inl err"
    by (simp add: process_all_def process_loop_append)
next
  show "extractor_extract pf svc line \<noteq> Inl (OpenAIError msg)"
    using extractor_extract_errors [of pf svc line "OpenAIError msg"] by auto
  show "extractor_extract pf svc line \<noteq> Inl (RuntimeError msg)"
    using extractor_extract_errors [of pf svc line "RuntimeError msg"] by auto
qed

theorem batch_aborts_at_first_error_witness:
  "fst (run_extraction digits_parser offline_services True ''gpt-4o'' morning
          [email_with_refs, email_no_refs, email_with_refs] empty_world)
     = Some (OpenAIError ''Connection error.'')
   \<and> length (snd (snd (run_extraction digits_parser offline_services True ''gpt-4o'' morning
          [email_with_refs, email_no_refs, email_with_refs] empty_world))) = 1
   \<and> process_all digits_parser no_key_services None [line_plain, line_inr_comma, line_plain]
     = Inl ValueError"
proof -
  let ?X = "run_extraction_loop digits_parser offline_services True ''gpt-4o'' morning 0
              [email_with_refs] empty_world []"
  let ?Y = "extract_structured digits_parser offline_services (em_subject email_no_refs)
              (em_body email_no_refs) True ''gpt-4o'' (Some CACHE_PATH)
              (morning (length [email_with_refs])) (fst (snd ?X))"
  have "fst ?X = None"
    by code_simp
  then have h1: "?X = (None, fst (snd ?X), snd (snd ?X))"
    by (metis prod.collapse)
  have "fst ?Y = Inl (OpenAIError ''Connection error.'')"
    by code_simp
  then have h2: "?Y = (Inl (OpenAIError ''Connection error.''), snd ?Y)"
    by (metis prod.collapse)
  have "\<not> isl (process_loop digits_parser no_key_services None [line_plain] [])"
    by code_simp
  then have h3: "process_loop digits_parser no_key_services None [line_plain] []
      = Inr (projr (process_loop digits_parser no_key_services None [line_plain] []))"
    by simp
  have h4: "process_email digits_parser no_key_services None line_inr_comma = Inl ValueError"
    by code_simp
  note t = batch_aborts_at_first_error [where pf = digits_parser and use_llm = True
      and llm_model = "''gpt-4o''" and clock = morning and before = "[email_with_refs]"
      and w = empty_world and e = email_no_refs and rest = "[email_with_refs]"
      and lines = "[line_plain]" and line = line_inr_comma and later = "[line_plain]"
      and conn = None]
  have a: "run_extraction digits_parser offline_services True ''gpt-4o'' morning
          ([email_with_refs] @ email_no_refs # [email_with_refs]) empty_world
       = (Some (OpenAIError ''Connection error.''), snd ?Y, snd (snd ?X))
     \<and> length (snd (snd ?X)) = length [email_with_refs]"
    by (rule t [where svc = offline_services, THEN conjunct1, THEN mp, OF conjI [OF h1 h2]])
  have b: "process_all digits_parser no_key_services None
             ([line_plain] @ line_inr_comma # [line_plain]) = Inl ValueError"
    by (rule t [where svc = no_key_services, THEN conjunct2, THEN conjunct1, THEN mp,
          OF conjI [OF h3 h4]])
  from a b show ?thesis by simp
qed

text \<open>
  The claim as stated fails in \<open>run_extraction\<close>: the provider fails for the first of two
  emails, the run ends with the exception and an empty output, and the second email, which
  is processed without the provider when it is alone, has no record.
\<close>

theorem batch_not_isolated_counterexample:
  "fst (run_extraction digits_parser offline_services True ''gpt-4o'' morning
          [email_no_refs, email_with_refs] empty_world)
     = Some (OpenAIError ''Connection error.'')
   \<and> snd (snd (run_extraction digits_parser offline_services True ''gpt-4o'' morning
          [email_no_refs, email_with_refs] empty_world)) = []
   \<and> fst (run_extraction digits_parser offline_services True ''gpt-4o'' morning
          [email_with_refs] empty_world) = None
   \<and> length (snd (snd (run_extraction digits_parser offline_services True ''gpt-4o'' morning
          [email_with_refs] empty_world))) = 1"
  by code_simp

end
